theory Spec2Isabelle
  imports Main "HOL-Library.Word"
begin

section \<open>Data model of the binder\<close>

subsection \<open>Errors\<close>

text \<open>
  Modelled from the spec: the file declaring \<^verbatim>\<open>Error\<close>, \<^verbatim>\<open>Errors\<close>, the
  classification constants and the methods \<^verbatim>\<open>Add\<close> and \<^verbatim>\<open>AddError\<close> is not part
  of the sources at hand.  The spec describes a field error as field-name labels, a
  classification tag from a fixed catalogue (plus caller-defined ones) and a message, and
  the accumulator as an ordered sequence with an append operation.  The binder itself shows
  that \<^verbatim>\<open>Errors\<close> is a slice of \<^verbatim>\<open>Error\<close> (\<^verbatim>\<open>append(bindErrors, ErrorInputNotByReference)\<close>).
\<close>

datatype classification =
    ContentTypeError | DeserializationError
  | IntegerTypeError | BooleanTypeError | FloatTypeError
  | RequiredError | AlphaDashError | AlphaDashDotError
  | MinSizeError | MaxSizeError | EmailError | UrlError
  | CustomError string

record Error =
  FieldNames :: "string list"
  Classification :: classification
  Message :: string

type_synonym Errors = "Error list"

definition NewError :: "string list \<Rightarrow> classification \<Rightarrow> string \<Rightarrow> Error" where
  "NewError fieldNames cls message =
     \<lparr>FieldNames = fieldNames, Classification = cls, Message = message\<rparr>"

text \<open>
  Modelled from the spec: \<^verbatim>\<open>Add\<close> and \<^verbatim>\<open>AddError\<close> append one error to the receiver.
  Both are called on a variable of type \<^verbatim>\<open>Errors\<close>; the functions below return the new
  value of that variable.  What a caller sees of it is decided by how the calling code
  passes the variable on, which is modelled at each call site.
\<close>

definition AddError :: "Errors \<Rightarrow> Error \<Rightarrow> Errors" where
  "AddError errors e = errors @ [e]"

definition Add :: "Errors \<Rightarrow> string list \<Rightarrow> classification \<Rightarrow> string \<Rightarrow> Errors" where
  "Add errors fieldNames cls message = AddError errors (NewError fieldNames cls message)"

definition ErrorEmptyContentType :: Error where
  "ErrorEmptyContentType = NewError [] ContentTypeError ''Empty Content-Type''"

definition ErrorUnsupportedContentType :: Error where
  "ErrorUnsupportedContentType = NewError [] ContentTypeError ''Unsupported Content-Type''"

definition ErrorInputNotByReference :: Error where
  "ErrorInputNotByReference =
     NewError [] DeserializationError ''input binding model is not by reference''"

definition ErrorInputIsNotStructure :: Error where
  "ErrorInputIsNotStructure =
     NewError [] DeserializationError ''binding model is required to be structure''"

subsection \<open>Types and values of a binding target\<close>

text \<open>
  The binder walks its target by reflection.  A target type is one of the kinds the
  binder distinguishes: the integer, boolean, float and string kinds, slices, pointers,
  structs with their declared fields, and \<^verbatim>\<open>multipart.FileHeader\<close>, a struct of the
  standard library that carries no tags and is kept opaque.  A field declaration holds
  what \<^verbatim>\<open>reflect.StructField\<close> gives: name, type, whether the field is embedded
  (\<^verbatim>\<open>Anonymous\<close>), whether it is exported, and the \<^verbatim>\<open>form\<close> and \<^verbatim>\<open>binding\<close> tags.
\<close>

datatype kind =
    KInt | KInt8 | KInt16 | KInt32 | KInt64
  | KUint | KUint8 | KUint16 | KUint32 | KUint64
  | KBool | KFloat32 | KFloat64 | KString
  | KSlice | KPtr | KStruct

datatype gtype =
    TBasic kind
  | TSlice gtype
  | TPtr gtype
  | TStruct string "fdecl list"
  | TFileHeader
and fdecl =
    FDecl (Name: string) (Type: gtype) (Anonymous: bool) (Exported: bool)
          (FormTag: string) (BindingTag: string)

fun Kind :: "gtype \<Rightarrow> kind" where
  "Kind (TBasic k) = k"
| "Kind (TSlice t) = KSlice"
| "Kind (TPtr t) = KPtr"
| "Kind (TStruct n ds) = KStruct"
| "Kind TFileHeader = KStruct"

datatype file_header = FileHeader (Filename: string) (Size: int)

text \<open>
  Values are trees: a pointer is nil or holds its pointee, a slice is nil or holds its
  elements.  Floating-point values are left abstract (type \<open>'f\<close>).
\<close>

datatype 'f gval =
    VInt int
  | VUint nat
  | VBool bool
  | VFloat 'f
  | VString string
  | VFile file_header
  | VNilSlice
  | VSlice "'f gval list"
  | VNilPtr
  | VPtr "'f gval"
  | VStruct "'f gval list"

datatype panic =
    IndexOutOfRange
  | SliceBoundsOutOfRange
  | NilDereference
  | SetUnexported
  | NotAStruct
  | IllTyped

text \<open>
  The panics are those of the Go runtime and of package \<^verbatim>\<open>reflect\<close>: an index or a
  slice expression out of range, a nil pointer dereferenced (or a method called on the zero
  \<^verbatim>\<open>reflect.Value\<close>), \<^verbatim>\<open>Value.Set\<close> on a value reached through an unexported field,
  \<^verbatim>\<open>NumField\<close> on a type that is not a struct.  \<open>IllTyped\<close> marks the inputs that
  do not exist in Go, a value handed over under a type it does not have.
\<close>

subsection \<open>Requests\<close>

text \<open>
  Of a \<^verbatim>\<open>*http.Request\<close> the binder uses the method, the \<^verbatim>\<open>Content-Type\<close> header,
  what \<^verbatim>\<open>ParseForm\<close> returns and leaves in \<^verbatim>\<open>req.Form\<close>, the field
  \<^verbatim>\<open>req.MultipartForm\<close> (\<open>req_MultipartForm\<close>), what \<^verbatim>\<open>MultipartReader\<close>
  followed by \<^verbatim>\<open>ReadForm\<close> returns (the error of the former, or the form and error of
  the latter), and the body.
\<close>

type_synonym form_values = "string \<rightharpoonup> string list"
type_synonym form_files = "string \<rightharpoonup> file_header list"

record multipart_form =
  Value :: form_values
  File :: form_files

record request =
  Method :: string
  ContentType :: string
  ParseForm_result :: "string option \<times> form_values"
  req_MultipartForm :: "multipart_form option"
  MultipartReader_result :: "string + (multipart_form option \<times> string option)"
  Body :: "string option"

text \<open>
  \<^verbatim>\<open>Request.MultipartReader\<close> of package \<^verbatim>\<open>net/http\<close>, called while
  \<^verbatim>\<open>req.MultipartForm\<close> is nil, first sets \<^verbatim>\<open>req.MultipartForm\<close> to its marker
  \<^verbatim>\<open>multipartByReader\<close>, a form with two empty maps, and only then reads the header,
  which is where it can fail.  After the call the field is therefore not nil, whether
  the call failed or not.
\<close>

definition multipartByReader :: multipart_form where
  "multipartByReader = \<lparr>Value = Map.empty, File = Map.empty\<rparr>"

datatype decode_error = EOF | DecodeError string

subsection \<open>Standard-library functions the binder relies on\<close>

text \<open>
  Functions of the Go standard library that the binder calls and that are not modelled
  here are parameters: float parsing and float equality, the \<^verbatim>\<open>%v\<close> formatting of
  a value that is not a string, rune counting, the outcome of matching the e-mail and
  URL patterns of the package, and JSON decoding.  The methods a caller attaches to
  the target types are parameters as well.
\<close>

record 'f lib =
  ParseFloat :: "string \<Rightarrow> nat \<Rightarrow> 'f option"
  float_zero :: 'f
  float_eq :: "'f \<Rightarrow> 'f \<Rightarrow> bool"
  Sprint_other :: "'f gval \<Rightarrow> string"
  RuneCountInString :: "string \<Rightarrow> nat"
  emailPattern_Match :: "string \<Rightarrow> bool"
  urlPattern_Match :: "string \<Rightarrow> bool"
  Decode :: "string \<Rightarrow> gtype \<Rightarrow> 'f gval \<Rightarrow> 'f gval \<times> decode_error option"
  ValidateBinder :: "gtype \<Rightarrow> ('f gval \<Rightarrow> request \<Rightarrow> Errors \<Rightarrow> Errors) option"

text \<open>
  \<open>Decode L body t v\<close> is \<^verbatim>\<open>json.NewDecoder(body).Decode(obj)\<close> for a target
  \<open>obj\<close> of type \<open>t\<close> and value \<open>v\<close>: the target afterwards and the error.
  \<open>ValidateBinder L t\<close> is the method \<^verbatim>\<open>ValidateBinder\<close> of type \<open>t\<close> when \<open>t\<close>
  implements the interface \<^verbatim>\<open>Validator\<close>, applied to the receiver, the request and
  the errors so far.
\<close>

text \<open>\<^verbatim>\<open>strings.HasPrefix\<close>, \<^verbatim>\<open>strings.Contains\<close> and \<^verbatim>\<open>strings.Split\<close> on a
  one-character separator.\<close>

fun HasPrefix :: "string \<Rightarrow> string \<Rightarrow> bool" where
  "HasPrefix s [] = True"
| "HasPrefix [] (p # ps) = False"
| "HasPrefix (c # cs) (p # ps) = (c = p \<and> HasPrefix cs ps)"

fun Contains :: "string \<Rightarrow> string \<Rightarrow> bool" where
  "Contains [] sub = (sub = [])"
| "Contains (c # cs) sub = (HasPrefix (c # cs) sub \<or> Contains cs sub)"

fun Split :: "string \<Rightarrow> char \<Rightarrow> string list" where
  "Split [] sep = [[]]"
| "Split (c # cs) sep =
     (if c = sep then [] # Split cs sep
      else (case Split cs sep of
              [] \<Rightarrow> [[c]]
            | w # ws \<Rightarrow> (c # w) # ws))"

text \<open>
  \<^verbatim>\<open>strconv.ParseUint(s, 10, 64)\<close> and \<^verbatim>\<open>strconv.ParseInt(s, 10, 64)\<close>: the value and
  the error Go returns.  Digits are read left to right; the first character that is not
  a decimal digit is a syntax error, the first overflow a range error.
\<close>

datatype numerror = ErrSyntax | ErrRange

definition is_digit :: "char \<Rightarrow> bool" where
  "is_digit c = (c \<in> set ''0123456789'')"

definition digit_val :: "char \<Rightarrow> nat" where
  "digit_val c = of_char c - 48"

definition maxUint64 :: nat where
  "maxUint64 = 2 ^ 64 - 1"

fun ParseUint_loop :: "string \<Rightarrow> nat \<Rightarrow> nat \<times> numerror option" where
  "ParseUint_loop [] n = (n, None)"
| "ParseUint_loop (c # cs) n =
     (if \<not> is_digit c then (0, Some ErrSyntax)
      else if n * 10 + digit_val c > maxUint64 then (maxUint64, Some ErrRange)
      else ParseUint_loop cs (n * 10 + digit_val c))"

definition ParseUint :: "string \<Rightarrow> nat \<times> numerror option" where
  "ParseUint s = (if s = [] then (0, Some ErrSyntax) else ParseUint_loop s 0)"

definition ParseInt :: "string \<Rightarrow> int \<times> numerror option" where
  "ParseInt s =
     (case s of
        [] \<Rightarrow> (0, Some ErrSyntax)
      | c # cs \<Rightarrow>
          (let neg = (c = CHR ''-'');
               s' = (if c = CHR ''+'' \<or> c = CHR ''-'' then cs else s);
               (un, err) = ParseUint s'
           in if err = Some ErrSyntax then (0, err)
              else if \<not> neg \<and> un \<ge> 2 ^ 63 then (2 ^ 63 - 1, Some ErrRange)
              else if neg \<and> un > 2 ^ 63 then (- (2 ^ 63), Some ErrRange)
              else (if neg then - int un else int un, None)))"

text \<open>\<^verbatim>\<open>strconv.Atoi\<close> with its error dropped, as \<^verbatim>\<open>min, _ := strconv.Atoi(...)\<close> does.\<close>

definition Atoi :: "string \<Rightarrow> int" where
  "Atoi s = fst (ParseInt s)"

definition ParseBool :: "string \<Rightarrow> bool option" where
  "ParseBool s =
     (if s \<in> set [''1'', ''t'', ''T'', ''TRUE'', ''true'', ''True''] then Some True
      else if s \<in> set [''0'', ''f'', ''F'', ''FALSE'', ''false'', ''False''] then Some False
      else None)"

subsection \<open>Reflection: zero values, deep equality, setters\<close>

fun zero :: "'f lib \<Rightarrow> gtype \<Rightarrow> 'f gval"
  and zero_fields :: "'f lib \<Rightarrow> fdecl list \<Rightarrow> 'f gval list" where
  "zero L (TBasic k) =
     (if k \<in> {KInt, KInt8, KInt16, KInt32, KInt64} then VInt 0
      else if k \<in> {KUint, KUint8, KUint16, KUint32, KUint64} then VUint 0
      else if k = KBool then VBool False
      else if k \<in> {KFloat32, KFloat64} then VFloat (float_zero L)
      else if k = KString then VString []
      else if k = KSlice then VNilSlice
      else if k = KPtr then VNilPtr
      else VStruct [])"
| "zero L (TSlice t) = VNilSlice"
| "zero L (TPtr t) = VNilPtr"
| "zero L (TStruct n ds) = VStruct (zero_fields L ds)"
| "zero L TFileHeader = VFile (FileHeader [] 0)"
| "zero_fields L [] = []"
| "zero_fields L (FDecl name t anon exported formTag bindingTag # ds) =
     zero L t # zero_fields L ds"

text \<open>
  \<^verbatim>\<open>reflect.DeepEqual\<close> on two values of one type: structural, a nil slice differs from
  an empty one, floats are compared by Go's \<^verbatim>\<open>==\<close>.
\<close>

fun DeepEqual :: "'f lib \<Rightarrow> 'f gval \<Rightarrow> 'f gval \<Rightarrow> bool"
  and DeepEqual_list :: "'f lib \<Rightarrow> 'f gval list \<Rightarrow> 'f gval list \<Rightarrow> bool" where
  "DeepEqual L (VInt a) v = (case v of VInt b \<Rightarrow> a = b | _ \<Rightarrow> False)"
| "DeepEqual L (VUint a) v = (case v of VUint b \<Rightarrow> a = b | _ \<Rightarrow> False)"
| "DeepEqual L (VBool a) v = (case v of VBool b \<Rightarrow> a = b | _ \<Rightarrow> False)"
| "DeepEqual L (VFloat a) v = (case v of VFloat b \<Rightarrow> float_eq L a b | _ \<Rightarrow> False)"
| "DeepEqual L (VString a) v = (case v of VString b \<Rightarrow> a = b | _ \<Rightarrow> False)"
| "DeepEqual L (VFile a) v = (case v of VFile b \<Rightarrow> a = b | _ \<Rightarrow> False)"
| "DeepEqual L VNilSlice v = (case v of VNilSlice \<Rightarrow> True | _ \<Rightarrow> False)"
| "DeepEqual L (VSlice xs) v = (case v of VSlice ys \<Rightarrow> DeepEqual_list L xs ys | _ \<Rightarrow> False)"
| "DeepEqual L VNilPtr v = (case v of VNilPtr \<Rightarrow> True | _ \<Rightarrow> False)"
| "DeepEqual L (VPtr a) v = (case v of VPtr b \<Rightarrow> DeepEqual L a b | _ \<Rightarrow> False)"
| "DeepEqual L (VStruct xs) v = (case v of VStruct ys \<Rightarrow> DeepEqual_list L xs ys | _ \<Rightarrow> False)"
| "DeepEqual_list L [] ys = (ys = [])"
| "DeepEqual_list L (x # xs) ys =
     (case ys of [] \<Rightarrow> False | y # ys' \<Rightarrow> DeepEqual L x y \<and> DeepEqual_list L xs ys')"

text \<open>
  \<^verbatim>\<open>Value.SetInt\<close> and \<^verbatim>\<open>Value.SetUint\<close> convert the 64-bit argument to the width of
  the field, which truncates; \<^verbatim>\<open>int\<close> and \<^verbatim>\<open>uint\<close> are 64 bits wide.
\<close>

definition SetInt :: "kind \<Rightarrow> int \<Rightarrow> 'f gval" where
  "SetInt k x =
     VInt (if k = KInt8 then sint (word_of_int x :: 8 word)
           else if k = KInt16 then sint (word_of_int x :: 16 word)
           else if k = KInt32 then sint (word_of_int x :: 32 word)
           else sint (word_of_int x :: 64 word))"

definition SetUint :: "kind \<Rightarrow> nat \<Rightarrow> 'f gval" where
  "SetUint k x =
     VUint (if k = KUint8 then unat (word_of_nat x :: 8 word)
            else if k = KUint16 then unat (word_of_nat x :: 16 word)
            else if k = KUint32 then unat (word_of_nat x :: 32 word)
            else unat (word_of_nat x :: 64 word))"

section \<open>The type coercer\<close>

text \<open>
  \<^verbatim>\<open>setWithProperType(valueKind, val, structField, nameInTag, errors)\<close>.  The field is
  written through \<^verbatim>\<open>structField\<close>; \<^verbatim>\<open>errors\<close> is a slice passed by value, so
  \<^verbatim>\<open>errors.Add\<close> updates the function's own variable.  The model returns the field after
  the call together with the final value of that local variable.  At every call site
  \<^verbatim>\<open>valueKind\<close> is the kind of \<^verbatim>\<open>structField\<close>.
\<close>

definition setWithProperType ::
  "'f lib \<Rightarrow> kind \<Rightarrow> string \<Rightarrow> 'f gval \<Rightarrow> string \<Rightarrow> Errors \<Rightarrow> 'f gval \<times> Errors" where
  "setWithProperType L valueKind val structField nameInTag errors =
     (if valueKind \<in> {KInt, KInt8, KInt16, KInt32, KInt64} then
        (let val = (if val = [] then ''0'' else val);
             (intVal, err) = ParseInt val
         in if err \<noteq> None then
              (structField,
               Add errors [nameInTag] IntegerTypeError ''Value could not be parsed as integer'')
            else (SetInt valueKind intVal, errors))
      else if valueKind \<in> {KUint, KUint8, KUint16, KUint32, KUint64} then
        (let val = (if val = [] then ''0'' else val);
             (uintVal, err) = ParseUint val
         in if err \<noteq> None then
              (structField,
               Add errors [nameInTag] IntegerTypeError
                 ''Value could not be parsed as unsigned integer'')
            else (SetUint valueKind uintVal, errors))
      else if valueKind = KBool then
        (if val = ''on'' then (VBool True, errors)
         else
           (let val = (if val = [] then ''false'' else val)
            in case ParseBool val of
                 None \<Rightarrow>
                   (structField,
                    Add errors [nameInTag] BooleanTypeError
                      ''Value could not be parsed as boolean'')
               | Some boolVal \<Rightarrow>
                   if boolVal then (VBool True, errors) else (structField, errors)))
      else if valueKind = KFloat32 then
        (let val = (if val = [] then ''0.0'' else val)
         in case ParseFloat L val 32 of
              None \<Rightarrow>
                (structField,
                 Add errors [nameInTag] FloatTypeError
                   ''Value could not be parsed as 32-bit float'')
            | Some floatVal \<Rightarrow> (VFloat floatVal, errors))
      else if valueKind = KFloat64 then
        (let val = (if val = [] then ''0.0'' else val)
         in case ParseFloat L val 64 of
              None \<Rightarrow>
                (structField,
                 Add errors [nameInTag] FloatTypeError
                   ''Value could not be parsed as 64-bit float'')
            | Some floatVal \<Rightarrow> (VFloat floatVal, errors))
      else if valueKind = KString then (VString val, errors)
      else (structField, errors))"

section \<open>The shape walker\<close>

definition fhType :: gtype where
  "fhType = TPtr TFileHeader"

text \<open>
  The part of the loop body of \<^verbatim>\<open>mapForm\<close> for a settable field with a \<^verbatim>\<open>form\<close>
  tag: the lookup in the string values, then in the files.  Every call of
  \<^verbatim>\<open>setWithProperType\<close> receives a copy of \<^verbatim>\<open>errors\<close>, and what it appends to the
  copy is dropped when it returns; \<^verbatim>\<open>mapForm\<close>'s own \<^verbatim>\<open>errors\<close> is never assigned.
\<close>

definition bindField ::
  "'f lib \<Rightarrow> gtype \<Rightarrow> 'f gval \<Rightarrow> string \<Rightarrow> form_values \<Rightarrow> form_files \<Rightarrow> Errors
     \<Rightarrow> panic + 'f gval" where
  "bindField L t structField inputFieldName form formfile errors =
     (case form inputFieldName of
        Some inputValue \<Rightarrow>
          (if Kind t = KSlice \<and> length inputValue > 0 then
             (case t of
                TSlice te \<Rightarrow>
                  Inr (VSlice (map (\<lambda>val. fst (setWithProperType L (Kind te) val (zero L te)
                                                  inputFieldName errors)) inputValue))
              | _ \<Rightarrow> Inl IllTyped)
           else
             (case inputValue of
                [] \<Rightarrow> Inl IndexOutOfRange
              | val # _ \<Rightarrow>
                  Inr (fst (setWithProperType L (Kind t) val structField
                              inputFieldName errors))))
      | None \<Rightarrow>
          (case formfile inputFieldName of
             None \<Rightarrow> Inr structField
           | Some inputFile \<Rightarrow>
               (if Kind t = KSlice \<and> length inputFile > 0 \<and> t = TSlice fhType then
                  Inr (VSlice (map (\<lambda>fh. VPtr (VFile fh)) inputFile))
                else if t = fhType then
                  (case inputFile of
                     [] \<Rightarrow> Inl IndexOutOfRange
                   | fh # _ \<Rightarrow> Inr (VPtr (VFile fh)))
                else Inr structField)))"

text \<open>
  \<^verbatim>\<open>mapForm(formStruct, form, formfile, errors)\<close> mutates the struct in place and
  returns nothing; the model returns the struct after the call.  \<open>ro\<close> tells whether
  \<^verbatim>\<open>formStruct\<close> was reached through an unexported field that is not embedded: package
  \<^verbatim>\<open>reflect\<close> hands that restriction down to every field.  \<open>mapFields\<close> is the loop
  over the fields and \<open>mapField\<close> its body, which returns the field after the iteration.
\<close>

fun mapForm ::
  "'f lib \<Rightarrow> bool \<Rightarrow> gtype \<Rightarrow> 'f gval \<Rightarrow> form_values \<Rightarrow> form_files \<Rightarrow> Errors
     \<Rightarrow> panic + 'f gval"
  and mapFields ::
  "'f lib \<Rightarrow> bool \<Rightarrow> fdecl list \<Rightarrow> 'f gval list \<Rightarrow> form_values \<Rightarrow> form_files \<Rightarrow> Errors
     \<Rightarrow> panic + 'f gval list"
  and mapField ::
  "'f lib \<Rightarrow> bool \<Rightarrow> fdecl \<Rightarrow> 'f gval \<Rightarrow> form_values \<Rightarrow> form_files \<Rightarrow> Errors
     \<Rightarrow> panic + 'f gval" where
  "mapForm L ro (TStruct n ds) formStruct form formfile errors =
     (case formStruct of
        VStruct vs \<Rightarrow>
          (case mapFields L ro ds vs form formfile errors of
             Inl p \<Rightarrow> Inl p
           | Inr vs' \<Rightarrow> Inr (VStruct vs'))
      | _ \<Rightarrow> Inl IllTyped)"
| "mapForm L ro (TPtr t) formStruct form formfile errors =
     (case formStruct of
        VNilPtr \<Rightarrow> Inl NilDereference
      | VPtr x \<Rightarrow>
          (case t of
             TStruct n ds \<Rightarrow>
               (case x of
                  VStruct vs \<Rightarrow>
                    (case mapFields L ro ds vs form formfile errors of
                       Inl p \<Rightarrow> Inl p
                     | Inr vs' \<Rightarrow> Inr (VPtr (VStruct vs')))
                | _ \<Rightarrow> Inl IllTyped)
           | TFileHeader \<Rightarrow> Inr formStruct
           | _ \<Rightarrow> Inl NotAStruct)
      | _ \<Rightarrow> Inl IllTyped)"
| "mapForm L ro TFileHeader formStruct form formfile errors = Inr formStruct"
| "mapForm L ro (TBasic k) formStruct form formfile errors = Inl NotAStruct"
| "mapForm L ro (TSlice t) formStruct form formfile errors = Inl NotAStruct"
| "mapFields L ro [] vs form formfile errors = Inr vs"
| "mapFields L ro (d # ds) vs form formfile errors =
     (case vs of
        [] \<Rightarrow> Inl IllTyped
      | structField # vs' \<Rightarrow>
          (case mapField L ro d structField form formfile errors of
             Inl p \<Rightarrow> Inl p
           | Inr structField' \<Rightarrow>
               (case mapFields L ro ds vs' form formfile errors of
                  Inl p \<Rightarrow> Inl p
                | Inr rest \<Rightarrow> Inr (structField' # rest))))"
| "mapField L ro (FDecl name t anon exported formTag bindingTag) structField
       form formfile errors =
     (if Kind t = KPtr \<and> anon then
        (if ro \<or> \<not> exported then Inl SetUnexported
         else
           (case t of
              TPtr te \<Rightarrow>
                (case mapForm L False te (zero L te) form formfile errors of
                   Inl p \<Rightarrow> Inl p
                 | Inr elem \<Rightarrow>
                     Inr (if DeepEqual L elem (zero L te) then VNilPtr else VPtr elem))
            | _ \<Rightarrow> Inl IllTyped))
      else if Kind t = KStruct then
        mapForm L (ro \<or> (\<not> exported \<and> \<not> anon)) t structField form formfile errors
      else if formTag \<noteq> [] then
        (if ro \<or> \<not> exported then Inr structField
         else bindField L t structField formTag form formfile errors)
      else Inr structField)"

section \<open>The rule validator\<close>

text \<open>
  \<^verbatim>\<open>alphaDashPattern\<close> is \<^verbatim>\<open>[^\d\w-_]\<close> and \<^verbatim>\<open>alphaDashDotPattern\<close> is
  \<^verbatim>\<open>[^\d\w-_\.]\<close>: each matches a string that holds a character outside the class.
\<close>

definition is_word_char :: "char \<Rightarrow> bool" where
  "is_word_char c =
     (c \<in> set ''0123456789abcdefghijklmnopqrstuvwxyzABCDEFGHIJKLMNOPQRSTUVWXYZ_'')"

definition alphaDashPattern_Match :: "string \<Rightarrow> bool" where
  "alphaDashPattern_Match s = (\<exists>c \<in> set s. \<not> (is_word_char c \<or> c = CHR ''-''))"

definition alphaDashDotPattern_Match :: "string \<Rightarrow> bool" where
  "alphaDashDotPattern_Match s =
     (\<exists>c \<in> set s. \<not> (is_word_char c \<or> c = CHR ''-'' \<or> c = CHR ''.''))"

text \<open>\<^verbatim>\<open>fmt.Sprintf("%v", fieldValue)\<close>.\<close>

definition Sprint :: "'f lib \<Rightarrow> 'f gval \<Rightarrow> string" where
  "Sprint L v = (case v of VString str \<Rightarrow> str | _ \<Rightarrow> Sprint_other L v)"

text \<open>\<^verbatim>\<open>v.Kind() == reflect.Slice\<close> and \<^verbatim>\<open>v.Len()\<close> of a field value.\<close>

definition is_slice :: "'f gval \<Rightarrow> bool" where
  "is_slice v = (case v of VNilSlice \<Rightarrow> True | VSlice xs \<Rightarrow> True | _ \<Rightarrow> False)"

definition Len :: "'f gval \<Rightarrow> nat" where
  "Len v = (case v of VSlice xs \<Rightarrow> length xs | _ \<Rightarrow> 0)"

text \<open>
  The inner loop of \<^verbatim>\<open>validateStruct\<close>, over the rules of one field:
  \<open>matchRules L name zero fieldValue rules errors\<close>.  The slice expression
  \<^verbatim>\<open>rule[8 : len(rule)-1]\<close> panics when the rule is exactly the prefix.
\<close>

fun matchRules ::
  "'f lib \<Rightarrow> string \<Rightarrow> 'f gval \<Rightarrow> 'f gval \<Rightarrow> string list \<Rightarrow> Errors \<Rightarrow> panic + Errors" where
  "matchRules L name z fieldValue [] errors = Inr errors"
| "matchRules L name z fieldValue (rule # rules) errors =
     (if length rule = 0 then matchRules L name z fieldValue rules errors
      else if rule = ''Required'' then
        matchRules L name z fieldValue rules
          (if DeepEqual L z fieldValue then Add errors [name] RequiredError ''Required''
           else errors)
      else if rule = ''AlphaDash'' then
        matchRules L name z fieldValue rules
          (if alphaDashPattern_Match (Sprint L fieldValue)
           then Add errors [name] AlphaDashError ''AlphaDash'' else errors)
      else if rule = ''AlphaDashDot'' then
        matchRules L name z fieldValue rules
          (if alphaDashDotPattern_Match (Sprint L fieldValue)
           then Add errors [name] AlphaDashDotError ''AlphaDashDot'' else errors)
      else if HasPrefix rule ''MinSize('' then
        (if length rule - 1 < 8 then Inl SliceBoundsOutOfRange
         else
           (let min = Atoi (take (length rule - 1 - 8) (drop 8 rule))
            in matchRules L name z fieldValue rules
                 (if (case fieldValue of
                        VString str \<Rightarrow> int (RuneCountInString L str) < min
                      | _ \<Rightarrow> False)
                  then Add errors [name] MinSizeError ''MinSize''
                  else if is_slice fieldValue \<and> int (Len fieldValue) < min
                  then Add errors [name] MinSizeError ''MinSize''
                  else errors)))
      else if HasPrefix rule ''MaxSize('' then
        (if length rule - 1 < 8 then Inl SliceBoundsOutOfRange
         else
           (let max = Atoi (take (length rule - 1 - 8) (drop 8 rule))
            in matchRules L name z fieldValue rules
                 (if (case fieldValue of
                        VString str \<Rightarrow> int (RuneCountInString L str) > max
                      | _ \<Rightarrow> False)
                  then Add errors [name] MaxSizeError ''MaxSize''
                  else if is_slice fieldValue \<and> int (Len fieldValue) > max
                  then Add errors [name] MaxSizeError ''MaxSize''
                  else errors)))
      else if rule = ''Email'' then
        matchRules L name z fieldValue rules
          (if \<not> emailPattern_Match L (Sprint L fieldValue)
           then Add errors [name] EmailError ''Email'' else errors)
      else if rule = ''Url'' then
        (let str = Sprint L fieldValue
         in if length str = 0 then matchRules L name z fieldValue rules errors
            else matchRules L name z fieldValue rules
                   (if \<not> urlPattern_Match L str
                    then Add errors [name] UrlError ''Url'' else errors))
      else matchRules L name z fieldValue rules errors)"

text \<open>
  \<^verbatim>\<open>validateStruct(errors, obj)\<close> returns the errors.  A pointer is dereferenced once;
  \<^verbatim>\<open>NumField\<close> panics on a type that is not a struct, and \<^verbatim>\<open>val.Field(i)\<close> panics
  when the pointer was nil.  \<open>validateFields\<close> is the loop over the fields and
  \<open>validateField\<close> its body: the recursion into a nested struct comes first, the rules
  of the field itself after it.
\<close>

fun validateStruct :: "'f lib \<Rightarrow> Errors \<Rightarrow> gtype \<Rightarrow> 'f gval \<Rightarrow> panic + Errors"
  and validateFields :: "'f lib \<Rightarrow> Errors \<Rightarrow> fdecl list \<Rightarrow> 'f gval list \<Rightarrow> panic + Errors"
  and validateField :: "'f lib \<Rightarrow> Errors \<Rightarrow> fdecl \<Rightarrow> 'f gval \<Rightarrow> panic + Errors" where
  "validateStruct L errors (TStruct n ds) obj =
     (case obj of
        VStruct vs \<Rightarrow> validateFields L errors ds vs
      | _ \<Rightarrow> Inl IllTyped)"
| "validateStruct L errors (TPtr t) obj =
     (case t of
        TStruct n ds \<Rightarrow>
          (case obj of
             VPtr (VStruct vs) \<Rightarrow> validateFields L errors ds vs
           | VNilPtr \<Rightarrow> (if ds = [] then Inr errors else Inl NilDereference)
           | _ \<Rightarrow> Inl IllTyped)
      | TFileHeader \<Rightarrow> Inr errors
      | _ \<Rightarrow> Inl NotAStruct)"
| "validateStruct L errors TFileHeader obj = Inr errors"
| "validateStruct L errors (TBasic k) obj = Inl NotAStruct"
| "validateStruct L errors (TSlice t) obj = Inl NotAStruct"
| "validateFields L errors [] vs = Inr errors"
| "validateFields L errors (d # ds) vs =
     (case vs of
        [] \<Rightarrow> Inl IllTyped
      | fieldValue # vs' \<Rightarrow>
          (case validateField L errors d fieldValue of
             Inl p \<Rightarrow> Inl p
           | Inr errors' \<Rightarrow> validateFields L errors' ds vs'))"
| "validateField L errors (FDecl name t anon exported formTag bindingTag) fieldValue =
     (if formTag = ''-'' \<or> \<not> exported then Inr errors
      else
        (case
           (if Kind t = KStruct \<or>
               (Kind t = KPtr \<and> \<not> DeepEqual L (zero L t) fieldValue \<and>
                (case t of TPtr te \<Rightarrow> Kind te = KStruct | _ \<Rightarrow> False))
            then validateStruct L errors t fieldValue
            else Inr errors)
         of
           Inl p \<Rightarrow> Inl p
         | Inr errors' \<Rightarrow>
             matchRules L name (zero L t) fieldValue (Split bindingTag CHR '';'') errors'))"

text \<open>
  \<^verbatim>\<open>validate(obj, req)\<close>: the built-in rules, then the method \<^verbatim>\<open>ValidateBinder\<close> of
  the target when it has one; for a slice, element after element.
\<close>

fun validate_elems ::
  "'f lib \<Rightarrow> gtype \<Rightarrow> 'f gval list \<Rightarrow> request \<Rightarrow> Errors \<Rightarrow> panic + Errors" where
  "validate_elems L te [] req bindErrors = Inr bindErrors"
| "validate_elems L te (e # es) req bindErrors =
     (case validateStruct L bindErrors te e of
        Inl p \<Rightarrow> Inl p
      | Inr errs \<Rightarrow>
          validate_elems L te es req
            (case ValidateBinder L te of
               Some validator \<Rightarrow> validator e req errs
             | None \<Rightarrow> errs))"

definition validate :: "'f lib \<Rightarrow> gtype \<Rightarrow> 'f gval \<Rightarrow> request \<Rightarrow> panic + Errors" where
  "validate L t obj req =
     (let (t', v) = (case t of
                       TPtr te \<Rightarrow> (case obj of VPtr x \<Rightarrow> (Some te, x) | _ \<Rightarrow> (None, obj))
                     | _ \<Rightarrow> (Some t, obj))
      in case t' of
           Some (TSlice te) \<Rightarrow>
             validate_elems L te (case v of VSlice es \<Rightarrow> es | _ \<Rightarrow> []) req []
         | _ \<Rightarrow>
             (case validateStruct L [] t obj of
                Inl p \<Rightarrow> Inl p
              | Inr errs \<Rightarrow>
                  Inr (case ValidateBinder L t of
                         Some validator \<Rightarrow> validator obj req errs
                       | None \<Rightarrow> errs)))"

section \<open>The entry points\<close>

text \<open>
  \<^verbatim>\<open>Form\<close>, \<^verbatim>\<open>MultipartForm\<close> and \<^verbatim>\<open>Json\<close> begin with the same lines: the target
  must be a pointer; a nil pointer found under it is replaced by a fresh zero value; what
  the pointers lead to must be a struct.  \<open>structOf\<close> returns the error and the target
  as it then is, or the struct with its type and whether it lay under two pointers;
  \<open>target_of\<close> puts the pointers back.
\<close>

definition structOf ::
  "'f lib \<Rightarrow> gtype \<Rightarrow> 'f gval \<Rightarrow> (Error \<times> 'f gval) + (bool \<times> gtype \<times> 'f gval)" where
  "structOf L t formStruct =
     (case t of
        TPtr t1 \<Rightarrow>
          (case formStruct of
             VPtr v1 \<Rightarrow>
               (case t1 of
                  TPtr t2 \<Rightarrow>
                    (let v1' = (if v1 = VNilPtr then VPtr (zero L t2) else v1)
                     in case v1' of
                          VPtr v2 \<Rightarrow>
                            if Kind t2 \<noteq> KStruct then Inl (ErrorInputIsNotStructure, VPtr v1')
                            else Inr (True, t2, v2)
                        | _ \<Rightarrow> Inl (ErrorInputIsNotStructure, VPtr v1'))
                | _ \<Rightarrow>
                    if Kind t1 \<noteq> KStruct then Inl (ErrorInputIsNotStructure, formStruct)
                    else Inr (False, t1, v1))
           | _ \<Rightarrow> Inl (ErrorInputIsNotStructure, formStruct))
      | _ \<Rightarrow> Inl (ErrorInputNotByReference, formStruct))"

definition target_of :: "bool \<Rightarrow> 'f gval \<Rightarrow> 'f gval" where
  "target_of twice v = (if twice then VPtr (VPtr v) else VPtr v)"

text \<open>
  Each entry point returns the target after the call and the \<^verbatim>\<open>Errors\<close>, or panics.
  \<^verbatim>\<open>mapForm\<close> is handed \<^verbatim>\<open>bindErrors\<close> by value and returns nothing, so
  \<^verbatim>\<open>bindErrors\<close> is afterwards what it was before.
\<close>

definition Form :: "'f lib \<Rightarrow> gtype \<Rightarrow> 'f gval \<Rightarrow> request \<Rightarrow> panic + ('f gval \<times> Errors)" where
  "Form L t formStruct req =
     (case structOf L t formStruct of
        Inl (e, obj) \<Rightarrow> Inr (obj, [e])
      | Inr (twice, ts, v) \<Rightarrow>
          (let (parseErr, reqForm) = ParseForm_result req;
               bindErrors = (case parseErr of
                               Some msg \<Rightarrow> Add [] [] DeserializationError msg
                             | None \<Rightarrow> [])
           in case mapForm L False ts v reqForm Map.empty bindErrors of
                Inl p \<Rightarrow> Inl p
              | Inr v' \<Rightarrow>
                  (case validate L ts v' req of
                     Inl p \<Rightarrow> Inl p
                   | Inr validateErrs \<Rightarrow> Inr (target_of twice v', bindErrors @ validateErrs))))"

definition MultipartForm ::
  "'f lib \<Rightarrow> gtype \<Rightarrow> 'f gval \<Rightarrow> request \<Rightarrow> panic + ('f gval \<times> Errors)" where
  "MultipartForm L t formStruct req =
     (case structOf L t formStruct of
        Inl (e, obj) \<Rightarrow> Inr (obj, [e])
      | Inr (twice, ts, v) \<Rightarrow>
          (let (bindErrors, req') =
                 (case req_MultipartForm req of
                    None \<Rightarrow>
                      (case MultipartReader_result req of
                         Inl err \<Rightarrow>
                           (Add [] [] DeserializationError err,
                            req\<lparr>req_MultipartForm := Some multipartByReader\<rparr>)
                       | Inr (form, parseErr) \<Rightarrow>
                           (case parseErr of
                              Some msg \<Rightarrow> Add [] [] DeserializationError msg
                            | None \<Rightarrow> [],
                            req\<lparr>req_MultipartForm := form\<rparr>))
                  | Some mf \<Rightarrow> ([], req))
           in case req_MultipartForm req' of
                None \<Rightarrow> Inl NilDereference
              | Some mf \<Rightarrow>
                  (case mapForm L False ts v (Value mf) (File mf) bindErrors of
                     Inl p \<Rightarrow> Inl p
                   | Inr v' \<Rightarrow>
                       (case validate L ts v' req' of
                          Inl p \<Rightarrow> Inl p
                        | Inr validateErrs \<Rightarrow>
                            Inr (target_of twice v', bindErrors @ validateErrs)))))"

definition Json :: "'f lib \<Rightarrow> gtype \<Rightarrow> 'f gval \<Rightarrow> request \<Rightarrow> panic + ('f gval \<times> Errors)" where
  "Json L t jsonStruct req =
     (case structOf L t jsonStruct of
        Inl (e, obj) \<Rightarrow> Inr (obj, [e])
      | Inr (twice, ts, v) \<Rightarrow>
          (let (obj, bindErrors) =
                 (case Body req of
                    None \<Rightarrow> (target_of twice v, [])
                  | Some body \<Rightarrow>
                      (let (obj, err) = Decode L body t (target_of twice v)
                       in (obj,
                           case err of
                             Some (DecodeError msg) \<Rightarrow> Add [] [] DeserializationError msg
                           | _ \<Rightarrow> [])))
           in case validate L t obj req of
                Inl p \<Rightarrow> Inl p
              | Inr validateErrs \<Rightarrow> Inr (obj, bindErrors @ validateErrs)))"

definition Bind :: "'f lib \<Rightarrow> gtype \<Rightarrow> 'f gval \<Rightarrow> request \<Rightarrow> panic + ('f gval \<times> Errors)" where
  "Bind L t obj req =
     (let contentType = ContentType req
      in if Method req = ''POST'' \<or> Method req = ''PUT'' \<or> contentType \<noteq> [] then
           (if Contains contentType ''form-urlencoded'' then Form L t obj req
            else if Contains contentType ''multipart/form-data'' then MultipartForm L t obj req
            else if Contains contentType ''json'' then Json L t obj req
            else Inr (obj, if contentType = [] then AddError [] ErrorEmptyContentType
                           else AddError [] ErrorUnsupportedContentType))
         else Form L t obj req)"

section \<open>The types of the package's tests\<close>

text \<open>
  \<^verbatim>\<open>Post\<close>, \<^verbatim>\<open>Person\<close>, \<^verbatim>\<open>BlogPost\<close> and \<^verbatim>\<open>EmbedPerson\<close> as the test file
  declares them, with the method \<^verbatim>\<open>ValidateBinder\<close> of \<^verbatim>\<open>Post\<close>, which
  \<^verbatim>\<open>BlogPost\<close> inherits from its embedded \<^verbatim>\<open>Post\<close>.
\<close>

definition PostT :: gtype where
  "PostT = TStruct ''Post''
     [FDecl ''Title'' (TBasic KString) False True ''title'' ''Required'',
      FDecl ''Content'' (TBasic KString) False True ''content'' []]"

definition PersonT :: gtype where
  "PersonT = TStruct ''Person''
     [FDecl ''Name'' (TBasic KString) False True ''name'' ''Required'',
      FDecl ''Email'' (TBasic KString) False True ''email'' []]"

definition BlogPostT :: gtype where
  "BlogPostT = TStruct ''BlogPost''
     [FDecl ''Post'' PostT True True [] [],
      FDecl ''Id'' (TBasic KInt) False True ''id'' ''Required'',
      FDecl ''Ignored'' (TBasic KString) False True ''-'' [],
      FDecl ''Ratings'' (TSlice (TBasic KInt)) False True ''rating'' [],
      FDecl ''Author'' PersonT False True [] [],
      FDecl ''Coauthor'' (TPtr PersonT) False True [] [],
      FDecl ''HeaderImage'' (TPtr TFileHeader) False True ''headerImage'' [],
      FDecl ''Pictures'' (TSlice (TPtr TFileHeader)) False True ''picture'' [],
      FDecl ''unexported'' (TBasic KString) False False ''unexported'' []]"

definition EmbedPersonT :: gtype where
  "EmbedPersonT = TStruct ''EmbedPerson'' [FDecl ''Person'' (TPtr PersonT) True True [] []]"

definition Post_ValidateBinder :: "'f gval \<Rightarrow> request \<Rightarrow> Errors \<Rightarrow> Errors" where
  "Post_ValidateBinder p req errors =
     (case p of
        VStruct (VString title # rest) \<Rightarrow>
          (if length title < 10
           then errors @ [\<lparr>FieldNames = [''Title''],
                           Classification = CustomError ''LengthError'',
                           Message = ''Life is too short''\<rparr>]
           else errors)
      | _ \<Rightarrow> errors)"

definition test_ValidateBinder ::
  "gtype \<Rightarrow> ('f gval \<Rightarrow> request \<Rightarrow> Errors \<Rightarrow> Errors) option" where
  "test_ValidateBinder t =
     (if t = PostT \<or> t = TPtr PostT then
        Some (\<lambda>obj. Post_ValidateBinder (case obj of VPtr p \<Rightarrow> p | _ \<Rightarrow> obj))
      else if t = BlogPostT \<or> t = TPtr BlogPostT then
        Some (\<lambda>obj. case (case obj of VPtr b \<Rightarrow> b | _ \<Rightarrow> obj) of
                       VStruct (p # rest) \<Rightarrow> Post_ValidateBinder p
                     | _ \<Rightarrow> (\<lambda>req errors. errors))
      else None)"

text \<open>
  The parameters for the examples below.  No example has a float field, a JSON body, an
  \<^verbatim>\<open>Email\<close> or \<^verbatim>\<open>Url\<close> rule, or a rule that formats a value other than a string, and
  every string in them is ASCII, so that its rune count is its length.
\<close>

definition testLib :: "unit lib" where
  "testLib =
     \<lparr>ParseFloat = (\<lambda>s bitSize. None), float_zero = (), float_eq = (\<lambda>a b. True),
      Sprint_other = (\<lambda>v. []), RuneCountInString = length,
      emailPattern_Match = (\<lambda>s. False), urlPattern_Match = (\<lambda>s. False),
      Decode = (\<lambda>body t v. (v, Some EOF)), ValidateBinder = test_ValidateBinder\<rparr>"

definition testRequest :: "string \<Rightarrow> string \<Rightarrow> (string \<times> string list) list \<Rightarrow> request" where
  "testRequest method contentType values =
     \<lparr>Method = method, ContentType = contentType,
      ParseForm_result = (None, map_of values),
      req_MultipartForm = None,
      MultipartReader_result = Inl ''request Content-Type isn't multipart/form-data'',
      Body = None\<rparr>"

definition formContentType :: string where
  "formContentType = ''application/x-www-form-urlencoded''"

text \<open>
  Two further records for the examples: an \<^verbatim>\<open>Article\<close> whose nested \<^verbatim>\<open>Author\<close> is
  itself required, and a \<^verbatim>\<open>Note\<close> whose required field carries the ignore marker.
\<close>

definition ArticleT :: gtype where
  "ArticleT = TStruct ''Article'' [FDecl ''Author'' PersonT False True [] ''Required'']"

definition NoteT :: gtype where
  "NoteT = TStruct ''Note'' [FDecl ''Secret'' (TBasic KString) False True ''-'' ''Required'']"

section \<open>Properties\<close>

lemmas model_defs =
  Form_def MultipartForm_def Json_def Bind_def structOf_def target_of_def validate_def
  bindField_def setWithProperType_def fhType_def
  ParseInt_def ParseUint_def ParseBool_def Atoi_def is_digit_def digit_val_def maxUint64_def
  SetInt_def SetUint_def Add_def AddError_def NewError_def
  Sprint_def is_slice_def Len_def alphaDashPattern_Match_def alphaDashDotPattern_Match_def
  is_word_char_def
  ErrorEmptyContentType_def ErrorUnsupportedContentType_def
  ErrorInputNotByReference_def ErrorInputIsNotStructure_def

lemmas test_defs =
  PostT_def PersonT_def BlogPostT_def EmbedPersonT_def Post_ValidateBinder_def
  test_ValidateBinder_def testLib_def testRequest_def formContentType_def

subsection \<open>Coercion errors and the returned Errors\<close>

text \<open>
  Claim C1 says that a coercion failure met while mapping a field is part of the
  \<^verbatim>\<open>Errors\<close> the bind call returns, and that
  \<^verbatim>\<open>rating=1&rating=2&rating=notanumber\<close> bound into a \<^verbatim>\<open>[]int\<close> field returns exactly
  one \<^verbatim>\<open>IntegerTypeError\<close>.  The code does not do that: a \<^verbatim>\<open>BlogPost\<close> bound by
  \<^verbatim>\<open>Form\<close> from these ratings (and values for its required fields) gets the ratings
  1, 2 and 0, and the returned \<^verbatim>\<open>Errors\<close> is empty.  \<^verbatim>\<open>setWithProperType\<close> does
  append the \<^verbatim>\<open>IntegerTypeError\<close>, but to its own copy of the slice.
\<close>

theorem Form_drops_coercion_error:
  "Form testLib (TPtr BlogPostT) (VPtr (zero testLib BlogPostT))
     (testRequest ''POST'' formContentType
        [(''title'', [''Hello world!'']), (''id'', [''7'']), (''name'', [''Bob'']),
         (''rating'', [''1'', ''2'', ''notanumber''])])
   = Inr (VPtr (VStruct
            [VStruct [VString ''Hello world!'', VString []], VInt 7, VString [],
             VSlice [VInt 1, VInt 2, VInt 0], VStruct [VString ''Bob'', VString []],
             VNilPtr, VNilPtr, VNilSlice, VString []]),
          [])
   \<and> setWithProperType testLib KInt ''notanumber'' (VInt 0) ''rating'' []
   = (VInt 0, [NewError [''rating''] IntegerTypeError ''Value could not be parsed as integer''])"
  by (simp add: model_defs test_defs)

subsection \<open>The ignore marker\<close>

text \<open>
  Claim C6 says that a field tagged \<^verbatim>\<open>form:"-"\<close> is never written by the binder, even
  when the input has a key \<^verbatim>\<open>-\<close>.  The validator tests for the marker; \<^verbatim>\<open>mapForm\<close>
  does not, and takes \<^verbatim>\<open>-\<close> for a key like any other: with a value under the key
  \<^verbatim>\<open>-\<close>, the field \<^verbatim>\<open>Ignored\<close> of a \<^verbatim>\<open>BlogPost\<close> is written.  The unexported field
  of the same struct is left alone.
\<close>

theorem mapForm_writes_ignored_field:
  "Form testLib (TPtr BlogPostT) (VPtr (zero testLib BlogPostT))
     (testRequest ''POST'' formContentType
        [(''title'', [''Hello world!'']), (''id'', [''7'']), (''name'', [''Bob'']),
         (''-'', [''written'']), (''unexported'', [''x''])])
   = Inr (VPtr (VStruct
            [VStruct [VString ''Hello world!'', VString []], VInt 7, VString ''written'',
             VNilSlice, VStruct [VString ''Bob'', VString []],
             VNilPtr, VNilPtr, VNilSlice, VString []]),
          [])"
  by (simp add: model_defs test_defs)

subsection \<open>A body that is not multipart\<close>

text \<open>
  When \<^verbatim>\<open>MultipartReader\<close> itself fails, as for a request that is not multipart at
  all, \<^verbatim>\<open>req.MultipartForm\<close> holds the marker of \<^verbatim>\<open>net/http\<close>: the failure is
  recorded, nothing is bound, and the call returns after validation.
\<close>

lemma MultipartForm_reader_failure_returns:
  "MultipartForm testLib (TPtr PostT) (VPtr (zero testLib PostT))
     (testRequest ''POST'' ''text/plain'' [])
   = Inr (VPtr (VStruct [VString [], VString []]),
          [NewError [] DeserializationError ''request Content-Type isn't multipart/form-data'',
           NewError [''Title''] RequiredError ''Required'',
           \<lparr>FieldNames = [''Title''], Classification = CustomError ''LengthError'',
              Message = ''Life is too short''\<rparr>])"
  by (simp add: model_defs test_defs multipartByReader_def)

text \<open>
  Claim C10 says that \<^verbatim>\<open>MultipartForm\<close> returns an \<^verbatim>\<open>Errors\<close> value also when the
  body cannot be parsed as multipart, with the failure recorded as a
  \<^verbatim>\<open>DeserializationError\<close>.  When the header is multipart and \<^verbatim>\<open>ReadForm\<close> fails
  on the body, \<^verbatim>\<open>ReadForm\<close> returns no form; the code records the failure, assigns
  the nil form to \<^verbatim>\<open>req.MultipartForm\<close> and then reads
  \<^verbatim>\<open>req.MultipartForm.Value\<close>: the call panics.
\<close>

theorem MultipartForm_panics_on_ReadForm_failure:
  "MultipartForm testLib (TPtr PostT) (VPtr (zero testLib PostT))
     ((testRequest ''POST'' ''multipart/form-data; boundary=x'' [])
        \<lparr>MultipartReader_result := Inr (None, Some ''multipart: NextPart: EOF'')\<rparr>)
     = Inl NilDereference"
  by (simp add: model_defs test_defs)

subsection \<open>Dispatch on method and content type\<close>

text \<open>
  Claim C2 says that a POST or PUT request with an empty \<^verbatim>\<open>Content-Type\<close> is bound
  through \<^verbatim>\<open>Form\<close>.  The code sends it to the branch that classifies the content
  type, where the empty one is an error: for a POST with no content type and a title in
  its form data, \<^verbatim>\<open>Bind\<close> leaves the target untouched and returns the
  \<^verbatim>\<open>Empty Content-Type\<close> error, while \<^verbatim>\<open>Form\<close> on the same request binds the title
  and returns no error.
\<close>

theorem Bind_POST_empty_content_type_counterexample:
  "Bind testLib (TPtr PostT) (VPtr (zero testLib PostT))
     (testRequest ''POST'' [] [(''title'', [''Hello world!''])])
   = Inr (VPtr (zero testLib PostT), [ErrorEmptyContentType])
   \<and> Form testLib (TPtr PostT) (VPtr (zero testLib PostT))
     (testRequest ''POST'' [] [(''title'', [''Hello world!''])])
   = Inr (VPtr (VStruct [VString ''Hello world!'', VString []]), [])"
  by (simp add: model_defs test_defs)

text \<open>
  Claim C2 as amended: with an empty content type \<^verbatim>\<open>Bind\<close> is \<^verbatim>\<open>Form\<close> exactly
  when the method is neither POST nor PUT; for POST and PUT it returns the single error
  \<^verbatim>\<open>Empty Content-Type\<close> and binds nothing.  A content type that is not empty and
  contains none of \<^verbatim>\<open>form-urlencoded\<close>, \<^verbatim>\<open>multipart/form-data\<close> and \<^verbatim>\<open>json\<close>
  returns the single error \<^verbatim>\<open>Unsupported Content-Type\<close>, whatever the method; one that
  contains \<^verbatim>\<open>form-urlencoded\<close> is bound through \<^verbatim>\<open>Form\<close>.
\<close>

theorem Bind_dispatch:
  "(ContentType req = [] \<and> Method req \<noteq> ''POST'' \<and> Method req \<noteq> ''PUT''
      \<longrightarrow> Bind L t obj req = Form L t obj req) \<and>
   (ContentType req = [] \<and> (Method req = ''POST'' \<or> Method req = ''PUT'')
      \<longrightarrow> Bind L t obj req = Inr (obj, [ErrorEmptyContentType])) \<and>
   (ContentType req \<noteq> [] \<and> \<not> Contains (ContentType req) ''form-urlencoded'' \<and>
    \<not> Contains (ContentType req) ''multipart/form-data'' \<and>
    \<not> Contains (ContentType req) ''json''
      \<longrightarrow> Bind L t obj req = Inr (obj, [ErrorUnsupportedContentType])) \<and>
   (Contains (ContentType req) ''form-urlencoded'' \<longrightarrow> Bind L t obj req = Form L t obj req)"
  by (auto simp: Bind_def AddError_def Let_def)

theorem Bind_dispatch_witness:
  "Bind testLib (TPtr PostT) (VPtr (zero testLib PostT))
     (testRequest ''GET'' [] [(''title'', [''Hello world!''])])
   = Form testLib (TPtr PostT) (VPtr (zero testLib PostT))
       (testRequest ''GET'' [] [(''title'', [''Hello world!''])])
   \<and> Bind testLib (TPtr PostT) (VPtr (zero testLib PostT))
       (testRequest ''PUT'' [] [(''title'', [''Hello world!''])])
   = Inr (VPtr (zero testLib PostT), [ErrorEmptyContentType])
   \<and> Bind testLib (TPtr PostT) (VPtr (zero testLib PostT))
       (testRequest ''POST'' ''text/plain'' [(''title'', [''Hello world!''])])
   = Inr (VPtr (zero testLib PostT), [ErrorUnsupportedContentType])
   \<and> Bind testLib (TPtr PostT) (VPtr (zero testLib PostT))
       (testRequest ''POST'' formContentType [(''title'', [''Hello world!''])])
   = Form testLib (TPtr PostT) (VPtr (zero testLib PostT))
       (testRequest ''POST'' formContentType [(''title'', [''Hello world!''])])"
  using Bind_dispatch [of "testRequest ''GET'' [] [(''title'', [''Hello world!''])]"
                          testLib "TPtr PostT" "VPtr (zero testLib PostT)"]
        Bind_dispatch [of "testRequest ''PUT'' [] [(''title'', [''Hello world!''])]"
                          testLib "TPtr PostT" "VPtr (zero testLib PostT)"]
        Bind_dispatch [of "testRequest ''POST'' ''text/plain'' [(''title'', [''Hello world!''])]"
                          testLib "TPtr PostT" "VPtr (zero testLib PostT)"]
        Bind_dispatch [of "testRequest ''POST'' formContentType [(''title'', [''Hello world!''])]"
                          testLib "TPtr PostT" "VPtr (zero testLib PostT)"]
  by (simp add: testRequest_def formContentType_def)

subsection \<open>The coercer, kind by kind\<close>

lemma sint_word_of_int_mod:
  "sint (word_of_int n :: 'a::len word) mod 2 ^ LENGTH('a) = n mod 2 ^ LENGTH('a)"
proof -
  have "take_bit LENGTH('a) (signed_take_bit (LENGTH('a) - 1) n) = take_bit LENGTH('a) n"
    by (rule take_bit_signed_take_bit) simp
  then show ?thesis by (simp add: sint_sbintrunc' take_bit_eq_mod)
qed

lemma SetInt_truncates:
  assumes "(k, w) \<in> {(KInt8, 8), (KInt16, 16), (KInt32, 32), (KInt64, 64), (KInt, 64)}"
  shows "\<exists>m. (SetInt k n :: 'f gval) = VInt m \<and> - (2 ^ (w - 1)) \<le> m \<and> m < 2 ^ (w - 1) \<and>
             m mod 2 ^ w = n mod 2 ^ w"
proof -
  have w8: "- (2 ^ 7) \<le> sint (word_of_int n :: 8 word) \<and> sint (word_of_int n :: 8 word) < 2 ^ 7
            \<and> sint (word_of_int n :: 8 word) mod 2 ^ 8 = n mod 2 ^ 8"
    using sint_ge [of "word_of_int n :: 8 word"] sint_lt [of "word_of_int n :: 8 word"]
      sint_word_of_int_mod [where 'a = 8, of n] by simp
  have w16: "- (2 ^ 15) \<le> sint (word_of_int n :: 16 word) \<and> sint (word_of_int n :: 16 word) < 2 ^ 15
            \<and> sint (word_of_int n :: 16 word) mod 2 ^ 16 = n mod 2 ^ 16"
    using sint_ge [of "word_of_int n :: 16 word"] sint_lt [of "word_of_int n :: 16 word"]
      sint_word_of_int_mod [where 'a = 16, of n] by simp
  have w32: "- (2 ^ 31) \<le> sint (word_of_int n :: 32 word) \<and> sint (word_of_int n :: 32 word) < 2 ^ 31
            \<and> sint (word_of_int n :: 32 word) mod 2 ^ 32 = n mod 2 ^ 32"
    using sint_ge [of "word_of_int n :: 32 word"] sint_lt [of "word_of_int n :: 32 word"]
      sint_word_of_int_mod [where 'a = 32, of n] by simp
  have w64: "- (2 ^ 63) \<le> sint (word_of_int n :: 64 word) \<and> sint (word_of_int n :: 64 word) < 2 ^ 63
            \<and> sint (word_of_int n :: 64 word) mod 2 ^ 64 = n mod 2 ^ 64"
    using sint_ge [of "word_of_int n :: 64 word"] sint_lt [of "word_of_int n :: 64 word"]
      sint_word_of_int_mod [where 'a = 64, of n] by simp
  from assms consider "k = KInt8 \<and> w = 8" | "k = KInt16 \<and> w = 16" | "k = KInt32 \<and> w = 32"
    | "k = KInt64 \<and> w = 64" | "k = KInt \<and> w = 64" by auto
  then show ?thesis
  proof cases
    case 1 with w8 show ?thesis by (simp add: SetInt_def)
  next
    case 2 with w16 show ?thesis by (simp add: SetInt_def)
  next
    case 3 with w32 show ?thesis by (simp add: SetInt_def)
  next
    case 4 with w64 show ?thesis by (simp add: SetInt_def)
  next
    case 5 with w64 show ?thesis by (simp add: SetInt_def)
  qed
qed

lemma SetUint_truncates:
  assumes "(k, w) \<in> {(KUint8, 8), (KUint16, 16), (KUint32, 32), (KUint64, 64), (KUint, 64)}"
  shows "(SetUint k n :: 'f gval) = VUint (n mod 2 ^ w)"
  using assms by (auto simp: SetUint_def unat_of_nat)

lemma ParseInt_nonempty: "ParseInt val = (n, None) \<Longrightarrow> val \<noteq> []"
  by (auto simp: ParseInt_def)

lemma ParseUint_nonempty: "ParseUint val = (n, None) \<Longrightarrow> val \<noteq> []"
  by (auto simp: ParseUint_def)

lemma setWithProperType_int:
  assumes "k \<in> {KInt8, KInt16, KInt32, KInt64, KInt}" "ParseInt val = (n, None)"
  shows "setWithProperType L k val f name errs = (SetInt k n, errs)"
  using assms ParseInt_nonempty [OF assms(2)]
  by (auto simp: setWithProperType_def)

lemma setWithProperType_uint:
  assumes "k \<in> {KUint8, KUint16, KUint32, KUint64, KUint}" "ParseUint val = (n, None)"
  shows "setWithProperType L k val f name errs = (SetUint k n, errs)"
  using assms ParseUint_nonempty [OF assms(2)]
  by (auto simp: setWithProperType_def)



lemma setWithProperType_intk:
  assumes "k \<in> {KInt, KInt8, KInt16, KInt32, KInt64}"
  shows "setWithProperType L k val f name errs =
     (case ParseInt (if val = [] then ''0'' else val) of
        (n, None) \<Rightarrow> (SetInt k n, errs)
      | (n, Some e) \<Rightarrow>
          (f, errs @ [NewError [name] IntegerTypeError ''Value could not be parsed as integer'']))"
  using assms
  by (simp add: setWithProperType_def Add_def AddError_def Let_def split: prod.splits option.splits)

lemma setWithProperType_uintk:
  assumes "k \<in> {KUint, KUint8, KUint16, KUint32, KUint64}"
  shows "setWithProperType L k val f name errs =
     (case ParseUint (if val = [] then ''0'' else val) of
        (n, None) \<Rightarrow> (SetUint k n, errs)
      | (n, Some e) \<Rightarrow>
          (f, errs @ [NewError [name] IntegerTypeError
                        ''Value could not be parsed as unsigned integer'']))"
proof -
  from assms have "k \<notin> {KInt, KInt8, KInt16, KInt32, KInt64}" by auto
  with assms show ?thesis
    by (simp add: setWithProperType_def Add_def AddError_def Let_def
             split: prod.splits option.splits)
qed

lemma setWithProperType_bool:
  "setWithProperType L KBool val f name errs =
     (if val = ''on'' then (VBool True, errs)
      else case ParseBool (if val = [] then ''false'' else val) of
             None \<Rightarrow> (f, errs @ [NewError [name] BooleanTypeError
                                   ''Value could not be parsed as boolean''])
           | Some b \<Rightarrow> if b then (VBool True, errs) else (f, errs))"
  by (simp add: setWithProperType_def Add_def AddError_def Let_def split: option.splits)

lemma setWithProperType_float32:
  "setWithProperType L KFloat32 val f name errs =
     (case ParseFloat L (if val = [] then ''0.0'' else val) 32 of
        None \<Rightarrow> (f, errs @ [NewError [name] FloatTypeError
                              ''Value could not be parsed as 32-bit float''])
      | Some x \<Rightarrow> (VFloat x, errs))"
  by (simp add: setWithProperType_def Add_def AddError_def Let_def split: option.splits)

lemma setWithProperType_float64:
  "setWithProperType L KFloat64 val f name errs =
     (case ParseFloat L (if val = [] then ''0.0'' else val) 64 of
        None \<Rightarrow> (f, errs @ [NewError [name] FloatTypeError
                              ''Value could not be parsed as 64-bit float''])
      | Some x \<Rightarrow> (VFloat x, errs))"
  by (simp add: setWithProperType_def Add_def AddError_def Let_def split: option.splits)

lemma setWithProperType_string:
  "setWithProperType L KString val f name errs = (VString val, errs)"
  by (simp add: setWithProperType_def)

lemma setWithProperType_cases:
  assumes "k \<in> {KInt, KInt8, KInt16, KInt32, KInt64, KUint, KUint8, KUint16, KUint32, KUint64,
                 KBool, KFloat32, KFloat64, KString}"
  shows "\<exists>f' errs'. setWithProperType L k val f name errs = (f', errs') \<and>
    ((errs' = errs \<and>
       ((\<exists>n. f' = SetInt k n) \<or> (\<exists>n. f' = SetUint k n) \<or> f' = VBool True \<or>
        (\<exists>x. f' = VFloat x) \<or> f' = VString val))
     \<or> (f' = f \<and>
         (\<exists>cls msg. cls \<in> {IntegerTypeError, BooleanTypeError, FloatTypeError} \<and>
                    errs' = errs @ [NewError [name] cls msg]))
     \<or> (k = KBool \<and> f' = f \<and> errs' = errs \<and>
         ParseBool (if val = [] then ''false'' else val) = Some False))"
proof -
  from assms consider "k \<in> {KInt, KInt8, KInt16, KInt32, KInt64}"
    | "k \<in> {KUint, KUint8, KUint16, KUint32, KUint64}"
    | "k = KBool" | "k = KFloat32" | "k = KFloat64" | "k = KString"
    by auto
  then show ?thesis
  proof cases
    case 1
    show ?thesis
      by (cases "ParseInt (if val = [] then ''0'' else val)")
         (auto simp: setWithProperType_intk [OF 1] split: option.splits)
  next
    case 2
    show ?thesis
      by (cases "ParseUint (if val = [] then ''0'' else val)")
         (auto simp: setWithProperType_uintk [OF 2] split: option.splits)
  next
    case 3
    show ?thesis
      by (cases "ParseBool (if val = [] then ''false'' else val)")
         (auto simp: 3 setWithProperType_bool)
  next
    case 4
    show ?thesis
      by (cases "ParseFloat L (if val = [] then ''0.0'' else val) 32")
         (auto simp: 4 setWithProperType_float32)
  next
    case 5
    show ?thesis
      by (cases "ParseFloat L (if val = [] then ''0.0'' else val) 64")
         (auto simp: 5 setWithProperType_float64)
  next
    case 6
    show ?thesis by (simp add: 6 setWithProperType_string)
  qed
qed

text \<open>
  Claim C9 says that for every supported kind and every literal \<^verbatim>\<open>setWithProperType\<close>
  either writes the field or appends a coercion error.  For a boolean it can do neither:
  a literal that parses as false is not written, so a field that holds true keeps it, and
  no error is appended.
\<close>

theorem setWithProperType_false_counterexample:
  "setWithProperType testLib KBool ''false'' (VBool True) ''active'' [] = (VBool True, [])"
  by (simp add: setWithProperType_def ParseBool_def)

text \<open>
  Claim C9 as amended: for every supported kind and every literal the call returns, and
  it has written the field and appended nothing, or left the field and appended one typed
  coercion error naming the field, or, for a boolean literal that parses as false, left the
  field and appended nothing.  A literal that parses as a 64-bit integer is written
  truncated to the width of the field: the value written lies in the range of the width
  and is congruent to the parsed one modulo two to the width.
\<close>

theorem setWithProperType_total:
  assumes "k \<in> {KInt, KInt8, KInt16, KInt32, KInt64, KUint, KUint8, KUint16, KUint32, KUint64,
                 KBool, KFloat32, KFloat64, KString}"
  shows "(\<exists>f' errs'. setWithProperType L k val f name errs = (f', errs') \<and>
    ((errs' = errs \<and>
       ((\<exists>n. f' = SetInt k n) \<or> (\<exists>n. f' = SetUint k n) \<or> f' = VBool True \<or>
        (\<exists>x. f' = VFloat x) \<or> f' = VString val))
     \<or> (f' = f \<and>
         (\<exists>cls msg. cls \<in> {IntegerTypeError, BooleanTypeError, FloatTypeError} \<and>
                    errs' = errs @ [NewError [name] cls msg]))
     \<or> (k = KBool \<and> f' = f \<and> errs' = errs \<and>
         ParseBool (if val = [] then ''false'' else val) = Some False)))
   \<and> (\<forall>n w. ParseInt val = (n, None) \<and>
          (k, w) \<in> {(KInt8, 8), (KInt16, 16), (KInt32, 32), (KInt64, 64), (KInt, 64)} \<longrightarrow>
          (\<exists>m. setWithProperType L k val f name errs = (VInt m, errs) \<and>
               - (2 ^ (w - 1)) \<le> m \<and> m < 2 ^ (w - 1) \<and> m mod 2 ^ w = n mod 2 ^ w))
   \<and> (\<forall>n w. ParseUint val = (n, None) \<and>
          (k, w) \<in> {(KUint8, 8), (KUint16, 16), (KUint32, 32), (KUint64, 64), (KUint, 64)} \<longrightarrow>
          setWithProperType L k val f name errs = (VUint (n mod 2 ^ w), errs))"
proof (intro conjI allI impI)
  show "\<exists>f' errs'. setWithProperType L k val f name errs = (f', errs') \<and>
    ((errs' = errs \<and>
       ((\<exists>n. f' = SetInt k n) \<or> (\<exists>n. f' = SetUint k n) \<or> f' = VBool True \<or>
        (\<exists>x. f' = VFloat x) \<or> f' = VString val))
     \<or> (f' = f \<and>
         (\<exists>cls msg. cls \<in> {IntegerTypeError, BooleanTypeError, FloatTypeError} \<and>
                    errs' = errs @ [NewError [name] cls msg]))
     \<or> (k = KBool \<and> f' = f \<and> errs' = errs \<and>
         ParseBool (if val = [] then ''false'' else val) = Some False))"
    by (rule setWithProperType_cases [OF assms])
next
  fix n :: int and w :: nat
  assume h: "ParseInt val = (n, None) \<and>
          (k, w) \<in> {(KInt8, 8), (KInt16, 16), (KInt32, 32), (KInt64, 64), (KInt, 64)}"
  then have kk: "k \<in> {KInt8, KInt16, KInt32, KInt64, KInt}" by auto
  from h have "setWithProperType L k val f name errs = (SetInt k n, errs)"
    by (intro setWithProperType_int kk) simp
  moreover from h obtain m where "(SetInt k n :: 'a gval) = VInt m" "- (2 ^ (w - 1)) \<le> m"
      "m < 2 ^ (w - 1)" "m mod 2 ^ w = n mod 2 ^ w"
    using SetInt_truncates [of k w n] by blast
  ultimately show "\<exists>m. setWithProperType L k val f name errs = (VInt m, errs) \<and>
               - (2 ^ (w - 1)) \<le> m \<and> m < 2 ^ (w - 1) \<and> m mod 2 ^ w = n mod 2 ^ w"
    by auto
next
  fix n :: nat and w :: nat
  assume h: "ParseUint val = (n, None) \<and>
          (k, w) \<in> {(KUint8, 8), (KUint16, 16), (KUint32, 32), (KUint64, 64), (KUint, 64)}"
  then have kk: "k \<in> {KUint8, KUint16, KUint32, KUint64, KUint}" by auto
  from h have "setWithProperType L k val f name errs = (SetUint k n, errs)"
    by (intro setWithProperType_uint kk) simp
  with h show "setWithProperType L k val f name errs = (VUint (n mod 2 ^ w), errs)"
    using SetUint_truncates [of k w n] by simp
qed

theorem setWithProperType_total_witness:
  "KInt8 \<in> {KInt, KInt8, KInt16, KInt32, KInt64, KUint, KUint8, KUint16, KUint32, KUint64,
            KBool, KFloat32, KFloat64, KString}
   \<and> ParseInt ''300'' = (300, None)
   \<and> (\<exists>m. setWithProperType testLib KInt8 ''300'' (VInt 0 :: unit gval) ''age'' [] = (VInt m, [])
          \<and> - 128 \<le> m \<and> m < 128 \<and> m mod 256 = 300 mod 256)
   \<and> setWithProperType testLib KInt8 ''300'' (VInt 0 :: unit gval) ''age'' [] = (VInt 44, [])"
proof -
  have k: "KInt8 \<in> {KInt, KInt8, KInt16, KInt32, KInt64, KUint, KUint8, KUint16, KUint32,
             KUint64, KBool, KFloat32, KFloat64, KString}" by simp
  have p: "ParseInt ''300'' = (300, None)"
    by (simp add: ParseInt_def ParseUint_def is_digit_def digit_val_def maxUint64_def)
  have e: "\<exists>m. setWithProperType testLib KInt8 ''300'' (VInt 0 :: unit gval) ''age'' [] = (VInt m, [])
          \<and> - 128 \<le> m \<and> m < 128 \<and> m mod 256 = 300 mod 256"
    using setWithProperType_total [OF k, of testLib "''300''" "VInt 0" "''age''" "[]",
            THEN conjunct2, THEN conjunct1, rule_format, of 300 8] p
    by simp
  have c: "setWithProperType testLib KInt8 ''300'' (VInt 0 :: unit gval) ''age'' []
      = (VInt 44, [])"
    by (simp add: model_defs)
  show ?thesis
    by (intro conjI k p e c)
qed

subsection \<open>The field loop of the binder\<close>

text \<open>
  The loop writes field \<open>i\<close> in iteration \<open>i\<close> and nowhere else: after a walk
  that returns, every field is what the loop body made of it.
\<close>

lemma mapFields_length:
  "mapFields L ro ds vs form formfile errors = Inr vs' \<Longrightarrow> length vs' = length vs"
proof (induction ds arbitrary: vs vs')
  case Nil
  then show ?case by simp
next
  case (Cons d ds)
  then show ?case
    by (auto split: list.splits sum.splits)
qed

lemma mapFields_nth:
  "mapFields L ro ds vs form formfile errors = Inr vs' \<Longrightarrow> i < length ds \<Longrightarrow>
     mapField L ro (ds ! i) (vs ! i) form formfile errors = Inr (vs' ! i)"
proof (induction ds arbitrary: vs vs' i)
  case Nil
  then show ?case by simp
next
  case (Cons d ds)
  from Cons.prems(1) obtain v rest v' rest' where
    vs: "vs = v # rest" and
    hd: "mapField L ro d v form formfile errors = Inr v'" and
    tl: "mapFields L ro ds rest form formfile errors = Inr rest'" and
    vs': "vs' = v' # rest'"
    by (auto split: list.splits sum.splits)
  show ?case
  proof (cases i)
    case 0
    with vs vs' hd show ?thesis by simp
  next
    case (Suc j)
    with Cons.prems(2) have "j < length ds" by simp
    from Cons.IH [OF tl this] Suc vs vs' show ?thesis by simp
  qed
qed

lemma mapField_plain:
  assumes "\<not> (Kind t = KPtr \<and> anon)" "Kind t \<noteq> KStruct"
    "form formTag = None" "formfile formTag = None"
  shows "mapField L ro (FDecl name t anon exported formTag bindingTag) v form formfile errors
           = Inr v"
  using assms by (auto simp: bindField_def)

lemma mapField_embedded:
  assumes "mapField L ro (FDecl name (TPtr te) True exported formTag bindingTag) v
             form formfile errors = Inr v'"
  shows "\<exists>elem. mapForm L False te (zero L te) form formfile errors = Inr elem \<and>
           v' = (if DeepEqual L elem (zero L te) then VNilPtr else VPtr elem)"
  using assms by (auto split: if_splits sum.splits)

lemma mapField_slice:
  assumes "formTag \<noteq> []" "exported" "\<not> ro" "form formTag = Some inputValue" "inputValue \<noteq> []"
  shows "mapField L ro (FDecl name (TSlice te) anon exported formTag bindingTag) structField
           form formfile errors
         = Inr (VSlice (map (\<lambda>val. fst (setWithProperType L (Kind te) val (zero L te)
                                         formTag errors)) inputValue))"
  using assms by (simp add: bindField_def)

subsection \<open>Fields whose key is absent\<close>

text \<open>
  Claim C3 says that a field whose key is in neither map keeps its value, whatever the
  shape of the field, embedded pointers to structs included.  An embedded pointer does
  not: bound from a form with no values at all, an \<^verbatim>\<open>EmbedPerson\<close> whose \<^verbatim>\<open>Person\<close>
  the caller had set is returned with a nil \<^verbatim>\<open>Person\<close>.
\<close>

theorem embedded_pointer_default_lost_counterexample:
  "Form testLib (TPtr EmbedPersonT)
     (VPtr (VStruct [VPtr (VStruct [VString ''default name'', VString []])]))
     (testRequest ''POST'' formContentType [])
   = Inr (VPtr (VStruct [VNilPtr]), [])"
  by (simp add: model_defs test_defs)

text \<open>
  Claim C3 as amended: in every walk of \<^verbatim>\<open>mapForm\<close> over the fields of a struct, at
  any depth, a field that is neither an embedded pointer nor of kind struct and whose
  \<^verbatim>\<open>form\<close> tag is a key of neither map has after the walk the value it had before.
  (A field of kind struct has no key of its own and is walked field by field; the binder
  returns no error for any field.)
\<close>

theorem mapFields_absent_key_untouched:
  assumes "mapFields L ro ds vs form formfile errors = Inr vs'"
    and "i < length ds"
    and "\<not> (Kind (Type (ds ! i)) = KPtr \<and> Anonymous (ds ! i))"
    and "Kind (Type (ds ! i)) \<noteq> KStruct"
    and "form (FormTag (ds ! i)) = None"
    and "formfile (FormTag (ds ! i)) = None"
  shows "vs' ! i = vs ! i"
proof -
  obtain name t anon exported formTag bindingTag where
    d: "ds ! i = FDecl name t anon exported formTag bindingTag"
    by (cases "ds ! i")
  from mapFields_nth [OF assms(1,2)] d
  have "mapField L ro (FDecl name t anon exported formTag bindingTag) (vs ! i)
          form formfile errors = Inr (vs' ! i)" by simp
  moreover have "mapField L ro (FDecl name t anon exported formTag bindingTag) (vs ! i)
          form formfile errors = Inr (vs ! i)"
    using assms(3-6) d by (intro mapField_plain) simp_all
  ultimately show ?thesis by simp
qed

theorem mapFields_absent_key_untouched_witness:
  "mapFields testLib False
     [FDecl ''Title'' (TBasic KString) False True ''title'' ''Required'',
      FDecl ''Content'' (TBasic KString) False True ''content'' []]
     [VString ''old title'', VString ''default content'']
     [''title'' \<mapsto> [''new title'']] Map.empty []
   = Inr [VString ''new title'', VString ''default content'']
   \<and> [VString ''new title'', VString ''default content''] ! 1
     = [VString ''old title'', VString ''default content'' :: unit gval] ! 1"
proof -
  have run: "mapFields testLib False
     [FDecl ''Title'' (TBasic KString) False True ''title'' ''Required'',
      FDecl ''Content'' (TBasic KString) False True ''content'' []]
     [VString ''old title'', VString ''default content'']
     [''title'' \<mapsto> [''new title'']] Map.empty []
   = Inr [VString ''new title'', VString ''default content'']"
    by (simp add: model_defs)
  from mapFields_absent_key_untouched [OF run, of 1] run show ?thesis
    by simp
qed

subsection \<open>Embedded pointers\<close>

text \<open>
  Claim C4 says that the binder allocates a record for an embedded pointer only if the
  pointer is nil, and recurses into the record.  The code allocates always: an
  \<^verbatim>\<open>EmbedPerson\<close> whose \<^verbatim>\<open>Person\<close> has a name, bound from an e-mail address alone,
  ends with a \<^verbatim>\<open>Person\<close> that has the address and no name, where binding into the
  record at hand would have kept the name.
\<close>

theorem embedded_pointer_reallocated_counterexample:
  "mapForm testLib False EmbedPersonT
     (VStruct [VPtr (VStruct [VString ''default name'', VString []])])
     [''email'' \<mapsto> [''a@b.c'']] Map.empty []
   = Inr (VStruct [VPtr (VStruct [VString [], VString ''a@b.c''])])
   \<and> mapForm testLib False PersonT (VStruct [VString ''default name'', VString []])
     [''email'' \<mapsto> [''a@b.c'']] Map.empty []
   = Inr (VStruct [VString ''default name'', VString ''a@b.c''])"
  by (simp add: model_defs test_defs)

text \<open>
  Claim C4 as amended: for every embedded pointer field, whatever it holds, the binder
  binds into a fresh zero record of the pointed-to type; the field is afterwards nil
  exactly when the record so bound is deeply equal to the zero record, and points to
  that record otherwise.
\<close>

theorem mapFields_embedded_pointer:
  assumes "mapFields L ro ds vs form formfile errors = Inr vs'"
    and "i < length ds"
    and "ds ! i = FDecl name (TPtr te) True exported formTag bindingTag"
  shows "\<exists>elem. mapForm L False te (zero L te) form formfile errors = Inr elem \<and>
           vs' ! i = (if DeepEqual L elem (zero L te) then VNilPtr else VPtr elem)"
  using mapFields_nth [OF assms(1,2)] assms(3) mapField_embedded by metis

theorem mapFields_embedded_pointer_witness:
  "mapFields testLib False [FDecl ''Person'' (TPtr PersonT) True True [] []]
     [VPtr (VStruct [VString ''default name'', VString []])]
     [''email'' \<mapsto> [''a@b.c'']] Map.empty []
   = Inr [VPtr (VStruct [VString [], VString ''a@b.c''])]
   \<and> (\<exists>elem. mapForm testLib False PersonT (zero testLib PersonT)
               [''email'' \<mapsto> [''a@b.c'']] Map.empty [] = Inr elem \<and>
        [VPtr (VStruct [VString [], VString ''a@b.c'' :: unit gval])] ! 0
          = (if DeepEqual testLib elem (zero testLib PersonT) then VNilPtr else VPtr elem))"
proof -
  have run: "mapFields testLib False [FDecl ''Person'' (TPtr PersonT) True True [] []]
     [VPtr (VStruct [VString ''default name'', VString []])]
     [''email'' \<mapsto> [''a@b.c'']] Map.empty []
   = Inr [VPtr (VStruct [VString [], VString ''a@b.c''])]"
    by (simp add: model_defs test_defs)
  from mapFields_embedded_pointer [OF run, of 0] run show ?thesis
    by simp
qed

subsection \<open>Repeated keys\<close>

text \<open>
  Claim C5: a settable field of slice type whose \<^verbatim>\<open>form\<close> tag is a key with
  \<open>N > 0\<close> values is set to a slice of length \<open>N\<close>, whose element \<open>j\<close> is the
  zero element after \<^verbatim>\<open>setWithProperType\<close> has been run on it with value \<open>j\<close>, each
  on its own.  The iteration for the field cannot panic, and a walk that returns has
  this slice in the field.
\<close>

theorem mapField_repeated_key:
  assumes "formTag \<noteq> []" and "exported" and "\<not> ro"
    and "form formTag = Some inputValue" and "inputValue \<noteq> []"
  shows "\<exists>xs. mapField L ro (FDecl name (TSlice te) anon exported formTag bindingTag)
                structField form formfile errors = Inr (VSlice xs) \<and>
              length xs = length inputValue \<and>
              (\<forall>j < length inputValue.
                 xs ! j = fst (setWithProperType L (Kind te) (inputValue ! j) (zero L te)
                                 formTag errors)) \<and>
              (\<forall>ds vs vs' i.
                 mapFields L ro ds vs form formfile errors = Inr vs' \<and> i < length ds \<and>
                 ds ! i = FDecl name (TSlice te) anon exported formTag bindingTag
                 \<longrightarrow> vs' ! i = VSlice xs)"
proof -
  let ?xs = "map (\<lambda>val. fst (setWithProperType L (Kind te) val (zero L te) formTag errors))
               inputValue"
  have eq: "mapField L ro (FDecl name (TSlice te) anon exported formTag bindingTag) v
              form formfile errors = Inr (VSlice ?xs)" for v
    using assms by (rule mapField_slice)
  have lift: "vs' ! i = VSlice ?xs"
    if "mapFields L ro ds vs form formfile errors = Inr vs' \<and> i < length ds \<and>
        ds ! i = FDecl name (TSlice te) anon exported formTag bindingTag" for ds vs vs' i
  proof -
    from that mapFields_nth [of L ro ds vs form formfile errors vs' i]
    have "mapField L ro (FDecl name (TSlice te) anon exported formTag bindingTag) (vs ! i)
            form formfile errors = Inr (vs' ! i)" by simp
    with eq [of "vs ! i"] show ?thesis by simp
  qed
  show ?thesis
    by (rule exI [of _ ?xs]) (use eq lift in \<open>simp\<close>)
qed

theorem mapField_repeated_key_witness:
  "[''rating'' \<mapsto> [''1'', ''2'', ''notanumber'']] ''rating'' = Some [''1'', ''2'', ''notanumber'']
   \<and> (\<exists>xs. mapField testLib False
               (FDecl ''Ratings'' (TSlice (TBasic KInt)) False True ''rating'' [])
               VNilSlice [''rating'' \<mapsto> [''1'', ''2'', ''notanumber'']] Map.empty []
             = Inr (VSlice xs) \<and>
            length xs = 3 \<and> xs ! 0 = VInt 1 \<and> xs ! 1 = VInt 2 \<and> xs ! 2 = VInt 0)"
proof -
  have tag: "''rating'' \<noteq> []" by simp
  have key: "[''rating'' \<mapsto> [''1'', ''2'', ''notanumber'']] ''rating''
               = Some [''1'', ''2'', ''notanumber'']" by simp
  have ne: "[''1'', ''2'', ''notanumber''] \<noteq> []" by simp
  have c0: "fst (setWithProperType testLib KInt ''1'' (VInt 0) ''rating'' []) = VInt 1"
    by (simp add: model_defs)
  have c1: "fst (setWithProperType testLib KInt ''2'' (VInt 0) ''rating'' []) = VInt 2"
    by (simp add: model_defs)
  have c2: "fst (setWithProperType testLib KInt ''notanumber'' (VInt 0) ''rating'' []) = VInt 0"
    by (simp add: model_defs)
  have "\<exists>xs. mapField testLib False
               (FDecl ''Ratings'' (TSlice (TBasic KInt)) False True ''rating'' [])
               VNilSlice [''rating'' \<mapsto> [''1'', ''2'', ''notanumber'']] Map.empty []
             = Inr (VSlice xs) \<and>
            length xs = length [''1'', ''2'', ''notanumber''] \<and>
            (\<forall>j < length [''1'', ''2'', ''notanumber''].
               xs ! j = fst (setWithProperType testLib (Kind (TBasic KInt))
                               ([''1'', ''2'', ''notanumber''] ! j)
                               (zero testLib (TBasic KInt)) ''rating'' [])) \<and>
            (\<forall>ds vs vs' i.
               mapFields testLib False ds vs [''rating'' \<mapsto> [''1'', ''2'', ''notanumber'']]
                 Map.empty [] = Inr vs' \<and> i < length ds \<and>
               ds ! i = FDecl ''Ratings'' (TSlice (TBasic KInt)) False True ''rating'' []
               \<longrightarrow> vs' ! i = VSlice xs)"
    by (rule mapField_repeated_key
          [where form = "[''rating'' \<mapsto> [''1'', ''2'', ''notanumber'']]"
             and formTag = "''rating''" and inputValue = "[''1'', ''2'', ''notanumber'']"
             and exported = True and ro = False])
       simp_all
  then obtain xs where
    run: "mapField testLib False
            (FDecl ''Ratings'' (TSlice (TBasic KInt)) False True ''rating'' [])
            VNilSlice [''rating'' \<mapsto> [''1'', ''2'', ''notanumber'']] Map.empty []
          = Inr (VSlice xs)"
    and len: "length xs = length [''1'', ''2'', ''notanumber'']"
    and elems: "\<forall>j < length [''1'', ''2'', ''notanumber''].
                  xs ! j = fst (setWithProperType testLib (Kind (TBasic KInt))
                                  ([''1'', ''2'', ''notanumber''] ! j)
                                  (zero testLib (TBasic KInt)) ''rating'' [])"
    by blast
  from elems have "xs ! 0 = VInt 1" "xs ! 1 = VInt 2" "xs ! 2 = VInt 0"
    using c0 c1 c2 by simp_all
  with run len key show ?thesis by auto
qed

subsection \<open>The rules of one field\<close>

text \<open>
  One rule appends at most one error, which names the field, and it is a
  \<^verbatim>\<open>RequiredError\<close> exactly for the rule \<^verbatim>\<open>Required\<close> on a value deeply equal to
  the zero value.  The validator only ever appends to the errors it is given.
\<close>

lemma matchRules_step:
  assumes "matchRules L name z v (rule # rules) errors = Inr errors'"
  shows "\<exists>step. matchRules L name z v rules (errors @ step) = Inr errors' \<and>
           (\<forall>e \<in> set step. FieldNames e = [name]) \<and>
           length (filter (\<lambda>e. Classification e = RequiredError) step)
             = (if rule = ''Required'' \<and> DeepEqual L z v then 1 else 0)"
proof -
  have one: "\<exists>step. matchRules L name z v rules (errors @ step) = Inr errors' \<and>
           (\<forall>e \<in> set step. FieldNames e = [name]) \<and>
           length (filter (\<lambda>e. Classification e = RequiredError) step) = 0"
    if "matchRules L name z v rules
          (if c1 then Add errors [name] cls msg
           else if c2 then Add errors [name] cls msg else errors) = Inr errors'"
      and "cls \<noteq> RequiredError" for c1 c2 cls msg
  proof (cases "c1 \<or> c2")
    case True
    with that have "matchRules L name z v rules (Add errors [name] cls msg) = Inr errors'"
      by (auto split: if_splits)
    with that(2) show ?thesis
      by (intro exI [of _ "[NewError [name] cls msg]"]) (simp add: Add_def AddError_def NewError_def)
  next
    case False
    with that show ?thesis by (intro exI [of _ "[]"]) simp
  qed
  consider (empty) "length rule = 0"
    | (required) "rule = ''Required''"
    | (alphadash) "rule = ''AlphaDash''"
    | (alphadashdot) "rule = ''AlphaDashDot''"
    | (minsize) "rule \<noteq> ''Required''" "rule \<noteq> ''AlphaDash''" "rule \<noteq> ''AlphaDashDot''"
        "length rule \<noteq> 0" "HasPrefix rule ''MinSize(''"
    | (maxsize) "rule \<noteq> ''Required''" "rule \<noteq> ''AlphaDash''" "rule \<noteq> ''AlphaDashDot''"
        "length rule \<noteq> 0" "\<not> HasPrefix rule ''MinSize(''" "HasPrefix rule ''MaxSize(''"
    | (email) "rule = ''Email''"
    | (url) "rule = ''Url''"
    | (other) "rule \<noteq> ''Required''" "rule \<noteq> ''AlphaDash''" "rule \<noteq> ''AlphaDashDot''"
        "length rule \<noteq> 0" "\<not> HasPrefix rule ''MinSize(''" "\<not> HasPrefix rule ''MaxSize(''"
        "rule \<noteq> ''Email''" "rule \<noteq> ''Url''"
    by blast
  then show ?thesis
  proof cases
    case empty
    with assms show ?thesis by (intro exI [of _ "[]"]) simp
  next
    case required
    show ?thesis
    proof (cases "DeepEqual L z v")
      case True
      with assms required show ?thesis
        by (intro exI [of _ "[NewError [name] RequiredError ''Required'']"])
           (simp add: Add_def AddError_def NewError_def)
    next
      case False
      with assms required show ?thesis by (intro exI [of _ "[]"]) simp
    qed
  next
    case alphadash
    with assms have "matchRules L name z v rules
        (if alphaDashPattern_Match (Sprint L v)
         then Add errors [name] AlphaDashError ''AlphaDash''
         else if False then Add errors [name] AlphaDashError ''AlphaDash''
         else errors) = Inr errors'"
      by (auto split: if_splits)
    from one [OF this] alphadash show ?thesis by simp
  next
    case alphadashdot
    with assms have "matchRules L name z v rules
        (if alphaDashDotPattern_Match (Sprint L v)
         then Add errors [name] AlphaDashDotError ''AlphaDashDot''
         else if False then Add errors [name] AlphaDashDotError ''AlphaDashDot''
         else errors) = Inr errors'"
      by (auto split: if_splits)
    from one [OF this] alphadashdot show ?thesis by simp
  next
    case minsize
    from assms have unfolded: "(if length rule - 1 < 8 then Inl SliceBoundsOutOfRange
         else
           (let m = Atoi (take (length rule - 1 - 8) (drop 8 rule))
            in matchRules L name z v rules
                 (if (case v of
                        VString str \<Rightarrow> int (RuneCountInString L str) < m
                      | _ \<Rightarrow> False)
                  then Add errors [name] MinSizeError ''MinSize''
                  else if is_slice v \<and> int (Len v) < m
                  then Add errors [name] MinSizeError ''MinSize''
                  else errors))) = Inr errors'"
      by (simp only: matchRules.simps minsize if_False if_True)
    have nopanic: "\<not> length rule - 1 < 8"
    proof
      assume "length rule - 1 < 8"
      with unfolded have "(Inl SliceBoundsOutOfRange :: panic + Errors) = Inr errors'"
        by (simp only: if_True)
      then show False by simp
    qed
    from unfolded nopanic have "matchRules L name z v rules
        (if (case v of
               VString str \<Rightarrow>
                 int (RuneCountInString L str) < Atoi (take (length rule - 1 - 8) (drop 8 rule))
             | _ \<Rightarrow> False)
         then Add errors [name] MinSizeError ''MinSize''
         else if is_slice v \<and> int (Len v) < Atoi (take (length rule - 1 - 8) (drop 8 rule))
         then Add errors [name] MinSizeError ''MinSize''
         else errors) = Inr errors'"
      by (simp only: if_False Let_def)
    from one [OF this] minsize show ?thesis by simp
  next
    case maxsize
    from assms have unfolded: "(if length rule - 1 < 8 then Inl SliceBoundsOutOfRange
         else
           (let m = Atoi (take (length rule - 1 - 8) (drop 8 rule))
            in matchRules L name z v rules
                 (if (case v of
                        VString str \<Rightarrow> int (RuneCountInString L str) > m
                      | _ \<Rightarrow> False)
                  then Add errors [name] MaxSizeError ''MaxSize''
                  else if is_slice v \<and> int (Len v) > m
                  then Add errors [name] MaxSizeError ''MaxSize''
                  else errors))) = Inr errors'"
      by (simp only: matchRules.simps maxsize if_False if_True)
    have nopanic: "\<not> length rule - 1 < 8"
    proof
      assume "length rule - 1 < 8"
      with unfolded have "(Inl SliceBoundsOutOfRange :: panic + Errors) = Inr errors'"
        by (simp only: if_True)
      then show False by simp
    qed
    from unfolded nopanic have "matchRules L name z v rules
        (if (case v of
               VString str \<Rightarrow>
                 int (RuneCountInString L str) > Atoi (take (length rule - 1 - 8) (drop 8 rule))
             | _ \<Rightarrow> False)
         then Add errors [name] MaxSizeError ''MaxSize''
         else if is_slice v \<and> int (Len v) > Atoi (take (length rule - 1 - 8) (drop 8 rule))
         then Add errors [name] MaxSizeError ''MaxSize''
         else errors) = Inr errors'"
      by (simp only: if_False Let_def)
    from one [OF this] maxsize show ?thesis by simp
  next
    case email
    with assms have "matchRules L name z v rules
        (if \<not> emailPattern_Match L (Sprint L v)
         then Add errors [name] EmailError ''Email''
         else if False then Add errors [name] EmailError ''Email''
         else errors) = Inr errors'"
      by (auto split: if_splits)
    from one [OF this] email show ?thesis by simp
  next
    case url
    with assms have "matchRules L name z v rules
        (if length (Sprint L v) \<noteq> 0 \<and> \<not> urlPattern_Match L (Sprint L v)
         then Add errors [name] UrlError ''Url''
         else if False then Add errors [name] UrlError ''Url''
         else errors) = Inr errors'"
      by (auto simp: Let_def split: if_splits)
    from one [OF this] url show ?thesis by simp
  next
    case other
    with assms show ?thesis by (intro exI [of _ "[]"]) simp
  qed
qed

lemma matchRules_appends:
  "matchRules L name z v rules errors = Inr errors' \<Longrightarrow>
     \<exists>new. errors' = errors @ new \<and> (\<forall>e \<in> set new. FieldNames e = [name]) \<and>
       length (filter (\<lambda>e. Classification e = RequiredError) new)
         = (if DeepEqual L z v then count_list rules ''Required'' else 0)"
proof (induction rules arbitrary: errors)
  case Nil
  then show ?case by simp
next
  case (Cons rule rules)
  from matchRules_step [OF Cons.prems] obtain step where
    rest: "matchRules L name z v rules (errors @ step) = Inr errors'" and
    names: "\<forall>e \<in> set step. FieldNames e = [name]" and
    cnt: "length (filter (\<lambda>e. Classification e = RequiredError) step)
             = (if rule = ''Required'' \<and> DeepEqual L z v then 1 else 0)"
    by blast
  from Cons.IH [OF rest] obtain new where
    new: "errors' = (errors @ step) @ new" "\<forall>e \<in> set new. FieldNames e = [name]"
      "length (filter (\<lambda>e. Classification e = RequiredError) new)
         = (if DeepEqual L z v then count_list rules ''Required'' else 0)"
    by blast
  show ?case
    by (rule exI [of _ "step @ new"]) (use new names cnt in auto)
qed

lemma matchRules_prefix:
  "matchRules L name z v rules errors = Inr errors' \<Longrightarrow> \<exists>new. errors' = errors @ new"
  using matchRules_appends by blast

lemma validate_appends:
  "validateStruct L errors t obj = Inr errors' \<Longrightarrow> \<exists>new. errors' = errors @ new"
  "validateFields L errors ds vs = Inr errors' \<Longrightarrow> \<exists>new. errors' = errors @ new"
  "validateField L errors d fieldValue = Inr errors' \<Longrightarrow> \<exists>new. errors' = errors @ new"
proof (induction L errors t obj and L errors ds vs and L errors d fieldValue
       arbitrary: errors' and errors' and errors'
       rule: validateStruct_validateFields_validateField.induct)
  case (1 L errors n ds obj)
  then show ?case by (auto split: gval.splits)
next
  case (2 L errors t obj)
  then show ?case by (auto split: gtype.splits gval.splits if_splits)
next
  case (3 L errors obj)
  then show ?case by simp
next
  case (4 L errors k obj)
  then show ?case by simp
next
  case (5 L errors t obj)
  then show ?case by simp
next
  case (6 L errors vs)
  then show ?case by simp
next
  case (7 L errors d ds vs)
  from "7.prems" obtain fieldValue vs' mid where
    vs: "vs = fieldValue # vs'" and
    f: "validateField L errors d fieldValue = Inr mid" and
    r: "validateFields L mid ds vs' = Inr errors'"
    by (auto split: list.splits sum.splits)
  from "7.IH"(1) [OF vs f] obtain a where "mid = errors @ a" by blast
  moreover from "7.IH"(2) [OF vs f r] obtain b where "errors' = mid @ b" by blast
  ultimately show ?case by simp
next
  case (8 L errors name t anon exported formTag bindingTag fieldValue)
  show ?case
  proof (cases "formTag = ''-'' \<or> \<not> exported")
    case True
    with "8.prems" show ?thesis by simp
  next
    case False
    let ?rec = "Kind t = KStruct \<or>
               (Kind t = KPtr \<and> \<not> DeepEqual L (zero L t) fieldValue \<and>
                (case t of TPtr te \<Rightarrow> Kind te = KStruct | _ \<Rightarrow> False))"
    show ?thesis
    proof (cases ?rec)
      case True
      with False "8.prems" obtain mid where
        n: "validateStruct L errors t fieldValue = Inr mid" and
        m: "matchRules L name (zero L t) fieldValue (Split bindingTag CHR '';'') mid = Inr errors'"
        by (auto split: sum.splits)
      from "8.IH" [OF False True n] obtain a where "mid = errors @ a" by blast
      moreover from matchRules_prefix [OF m] obtain b where "errors' = mid @ b" by blast
      ultimately show ?thesis by simp
    next
      case nr: False
      with False "8.prems" have
        "matchRules L name (zero L t) fieldValue (Split bindingTag CHR '';'') errors = Inr errors'"
        by (auto split: sum.splits)
      from matchRules_prefix [OF this] show ?thesis .
    qed
  qed
qed

lemma validateFields_nth:
  "validateFields L errors ds vs = Inr errors' \<Longrightarrow> i < length ds \<Longrightarrow>
     \<exists>pre mid post. validateField L pre (ds ! i) (vs ! i) = Inr mid \<and> errors' = mid @ post"
proof (induction ds arbitrary: errors vs i)
  case Nil
  then show ?case by simp
next
  case (Cons d ds)
  from Cons.prems(1) obtain fieldValue vs' mid where
    vs: "vs = fieldValue # vs'" and
    f: "validateField L errors d fieldValue = Inr mid" and
    r: "validateFields L mid ds vs' = Inr errors'"
    by (auto split: list.splits sum.splits)
  show ?case
  proof (cases i)
    case 0
    from validate_appends(2) [OF r] obtain post where "errors' = mid @ post" by blast
    with 0 vs f show ?thesis by auto
  next
    case (Suc j)
    with Cons.prems(2) have "j < length ds" by simp
    from Cons.IH [OF r this] Suc vs show ?thesis by simp
  qed
qed

lemma validateField_visited:
  assumes "validateField L errors (FDecl name t anon True formTag bindingTag) fieldValue
             = Inr errors'"
    and "formTag \<noteq> ''-''"
  shows "\<exists>nested own. errors' = errors @ nested @ own \<and>
           matchRules L name (zero L t) fieldValue (Split bindingTag CHR '';'') (errors @ nested)
             = Inr (errors @ nested @ own) \<and>
           (if Kind t = KStruct \<or>
               (Kind t = KPtr \<and> \<not> DeepEqual L (zero L t) fieldValue \<and>
                (case t of TPtr te \<Rightarrow> Kind te = KStruct | _ \<Rightarrow> False))
            then validateStruct L errors t fieldValue = Inr (errors @ nested)
            else nested = [])"
proof -
  let ?rec = "Kind t = KStruct \<or>
               (Kind t = KPtr \<and> \<not> DeepEqual L (zero L t) fieldValue \<and>
                (case t of TPtr te \<Rightarrow> Kind te = KStruct | _ \<Rightarrow> False))"
  show ?thesis
  proof (cases ?rec)
    case True
    with assms obtain mid where
      n: "validateStruct L errors t fieldValue = Inr mid" and
      m: "matchRules L name (zero L t) fieldValue (Split bindingTag CHR '';'') mid = Inr errors'"
      by (auto split: sum.splits)
    from validate_appends(1) [OF n] obtain nested where mid: "mid = errors @ nested" by blast
    from matchRules_prefix [OF m] obtain own where own: "errors' = mid @ own" by blast
    show ?thesis
      by (rule exI [of _ nested], rule exI [of _ own]) (use True n m mid own in simp)
  next
    case False
    with assms have
      m: "matchRules L name (zero L t) fieldValue (Split bindingTag CHR '';'') errors = Inr errors'"
      by (auto split: sum.splits)
    from matchRules_prefix [OF m] obtain own where own: "errors' = errors @ own" by blast
    show ?thesis
      by (rule exI [of _ "[]"], rule exI [of _ own]) (use False m own in auto)
  qed
qed

subsection \<open>The rule Required\<close>

text \<open>
  Claim C8 says that every field tagged \<^verbatim>\<open>Required\<close> whose value is the zero value
  gets exactly one \<^verbatim>\<open>RequiredError\<close>.  A field that also carries the ignore marker
  gets none: the validator skips it before it looks at the rules.  The field
  \<^verbatim>\<open>Secret\<close> of a \<^verbatim>\<open>Note\<close> is required, ignored and empty, and binding an empty
  form returns no error.
\<close>

theorem Required_on_ignored_field_counterexample:
  "Form testLib (TPtr NoteT) (VPtr (zero testLib NoteT))
     (testRequest ''POST'' formContentType [])
   = Inr (VPtr (VStruct [VString []]), [])"
  by (simp add: model_defs test_defs NoteT_def)

text \<open>
  Claim C8 as amended: in a validation pass that returns, a field that the validator
  visits (exported, \<^verbatim>\<open>form\<close> tag not \<^verbatim>\<open>-\<close>) and whose \<^verbatim>\<open>binding\<close> tag names
  \<^verbatim>\<open>Required\<close> once contributes one block of errors to the result, the errors its
  own rules append; all of them name the field, and among them is exactly one
  \<^verbatim>\<open>RequiredError\<close> when the value is deeply equal to the zero value of the field's
  type, and none otherwise.
\<close>

theorem Required_rule_one_error:
  assumes "validateFields L errors ds vs = Inr errors'"
    and "i < length ds"
    and "ds ! i = FDecl name t anon True formTag bindingTag"
    and "formTag \<noteq> ''-''"
    and "count_list (Split bindingTag CHR '';'') ''Required'' = 1"
  shows "\<exists>pre own post. errors' = pre @ own @ post \<and>
           matchRules L name (zero L t) (vs ! i) (Split bindingTag CHR '';'') pre
             = Inr (pre @ own) \<and>
           (\<forall>e \<in> set own. FieldNames e = [name]) \<and>
           length (filter (\<lambda>e. Classification e = RequiredError) own)
             = (if DeepEqual L (zero L t) (vs ! i) then 1 else 0)"
proof -
  from validateFields_nth [OF assms(1,2)] assms(3) obtain before mid post where
    f: "validateField L before (FDecl name t anon True formTag bindingTag) (vs ! i) = Inr mid"
    and e: "errors' = mid @ post"
    by auto
  from validateField_visited [OF f assms(4)] obtain nested own where
    mid: "mid = before @ nested @ own" and
    m: "matchRules L name (zero L t) (vs ! i) (Split bindingTag CHR '';'') (before @ nested)
          = Inr (before @ nested @ own)"
    by blast
  from matchRules_appends [OF m] obtain new where
    new: "before @ nested @ own = (before @ nested) @ new"
      "\<forall>e \<in> set new. FieldNames e = [name]"
      "length (filter (\<lambda>e. Classification e = RequiredError) new)
         = (if DeepEqual L (zero L t) (vs ! i)
            then count_list (Split bindingTag CHR '';'') ''Required'' else 0)"
    by blast
  from new(1) have "new = own" by simp
  with new assms(5) have own:
    "\<forall>e \<in> set own. FieldNames e = [name]"
    "length (filter (\<lambda>e. Classification e = RequiredError) own)
       = (if DeepEqual L (zero L t) (vs ! i) then 1 else 0)"
    by simp_all
  show ?thesis
    by (rule exI [of _ "before @ nested"], rule exI [of _ own], rule exI [of _ post])
       (use e mid m own in simp)
qed

theorem Required_rule_one_error_witness:
  "validateFields testLib []
     [FDecl ''Title'' (TBasic KString) False True ''title'' ''Required'',
      FDecl ''Content'' (TBasic KString) False True ''content'' []]
     [VString [], VString []]
   = Inr [NewError [''Title''] RequiredError ''Required'']
   \<and> count_list (Split ''Required'' CHR '';'') ''Required'' = 1
   \<and> (\<exists>pre own post.
         [NewError [''Title''] RequiredError ''Required''] = pre @ own @ post \<and>
         matchRules testLib ''Title'' (zero testLib (TBasic KString))
           ([VString [], VString []] ! 0) (Split ''Required'' CHR '';'') pre = Inr (pre @ own) \<and>
         (\<forall>e \<in> set own. FieldNames e = [''Title'']) \<and>
         length (filter (\<lambda>e. Classification e = RequiredError) own)
           = (if DeepEqual testLib (zero testLib (TBasic KString)) ([VString [], VString []] ! 0)
              then 1 else 0))"
proof -
  have run: "validateFields testLib []
     [FDecl ''Title'' (TBasic KString) False True ''title'' ''Required'',
      FDecl ''Content'' (TBasic KString) False True ''content'' []]
     [VString [], VString []]
   = Inr [NewError [''Title''] RequiredError ''Required'']"
    by (simp add: model_defs)
  have cnt: "count_list (Split ''Required'' CHR '';'') ''Required'' = 1"
    by simp
  from Required_rule_one_error [OF run, of 0 "''Title''" "TBasic KString" False "''title''"
         "''Required''"] cnt run
  show ?thesis by simp
qed

subsection \<open>The hook and the built-in pass\<close>

lemma zero_hook:
  "zero (L\<lparr>ValidateBinder := h\<rparr>) t = zero L t"
  "zero_fields (L\<lparr>ValidateBinder := h\<rparr>) ds = zero_fields L ds"
  by (induction L t and L ds rule: zero_zero_fields.induct) simp_all

lemma DeepEqual_hook:
  "DeepEqual (L\<lparr>ValidateBinder := h\<rparr>) a b = DeepEqual L a b"
  "DeepEqual_list (L\<lparr>ValidateBinder := h\<rparr>) xs ys = DeepEqual_list L xs ys"
  by (induction L a b and L xs ys rule: DeepEqual_DeepEqual_list.induct)
     (simp_all split: gval.splits list.splits)

lemma Sprint_hook: "Sprint (L\<lparr>ValidateBinder := h\<rparr>) v = Sprint L v"
  by (cases v) (simp_all add: Sprint_def)

lemma matchRules_hook:
  "matchRules (L\<lparr>ValidateBinder := h\<rparr>) name z v rules errors
     = matchRules L name z v rules errors"
  by (induction rules arbitrary: errors)
     (simp_all add: DeepEqual_hook Sprint_hook split del: if_split
        cong: if_cong gval.case_cong)

lemma validateStruct_hook:
  "validateStruct (L\<lparr>ValidateBinder := h\<rparr>) errors t obj = validateStruct L errors t obj"
  "validateFields (L\<lparr>ValidateBinder := h\<rparr>) errors ds vs = validateFields L errors ds vs"
  "validateField (L\<lparr>ValidateBinder := h\<rparr>) errors d fieldValue
     = validateField L errors d fieldValue"
proof (induction L errors t obj and L errors ds vs and L errors d fieldValue
       rule: validateStruct_validateFields_validateField.induct)
  case (1 L errors n ds obj)
  then show ?case by (simp split: gval.splits)
next
  case (2 L errors t obj)
  then show ?case by (simp split: gtype.splits gval.splits)
next
  case (7 L errors d ds vs)
  then show ?case by (simp split: list.splits sum.splits)
next
  case (8 L errors name t anon exported formTag bindingTag fieldValue)
  show ?case
  proof (cases "formTag = ''-'' \<or> \<not> exported")
    case True
    then show ?thesis by auto
  next
    case visited: False
    show ?thesis
    proof (cases "Kind t = KStruct \<or>
               (Kind t = KPtr \<and> \<not> DeepEqual L (zero L t) fieldValue \<and>
                (case t of TPtr te \<Rightarrow> Kind te = KStruct | _ \<Rightarrow> False))")
      case True
      from "8.IH" [OF visited True] visited True show ?thesis
        by (simp add: zero_hook DeepEqual_hook matchRules_hook split: sum.splits)
    next
      case False
      with visited show ?thesis
        by (auto simp add: zero_hook DeepEqual_hook matchRules_hook)
    qed
  qed
qed simp_all

lemma Form_errors:
  assumes "Form L t obj req = Inr (obj', errs)" and "structOf L t obj = Inr (twice, ts, v)"
  shows "\<exists>bindErrors validateErrs v'. obj' = target_of twice v' \<and>
           validate L ts v' req = Inr validateErrs \<and> errs = bindErrors @ validateErrs"
  using assms
  by (auto simp: Form_def Let_def split: prod.splits sum.splits option.splits)

lemma MultipartForm_errors:
  assumes "MultipartForm L t obj req = Inr (obj', errs)"
    and "structOf L t obj = Inr (twice, ts, v)"
  shows "\<exists>bindErrors validateErrs v' req'. obj' = target_of twice v' \<and>
           validate L ts v' req' = Inr validateErrs \<and> errs = bindErrors @ validateErrs"
  using assms
  by (auto simp: MultipartForm_def Let_def split: prod.splits sum.splits option.splits)

lemma Json_errors:
  assumes "Json L t obj req = Inr (obj', errs)" and "structOf L t obj = Inr (twice, ts, v)"
  shows "\<exists>bindErrors validateErrs.
           validate L t obj' req = Inr validateErrs \<and> errs = bindErrors @ validateErrs"
  using assms
  by (auto simp: Json_def Let_def split: prod.splits sum.splits option.splits)

lemma validate_hook_last:
  assumes "validate L t obj req = Inr errs"
    and "\<forall>te. t \<noteq> TSlice te \<and> t \<noteq> TPtr (TSlice te)"
  shows "\<exists>built. validateStruct L [] t obj = Inr built \<and>
           errs = (case ValidateBinder L t of
                     Some validator \<Rightarrow> validator obj req built
                   | None \<Rightarrow> built)"
  using assms
  by (auto simp: validate_def Let_def
           split: prod.splits sum.splits option.splits gtype.splits gval.splits)

subsection \<open>The order of the errors\<close>

text \<open>
  Claim C7 says that within the validator pass the violations of a field's own rules
  precede those found by recursing into the field.  The code recurses first: for an
  \<^verbatim>\<open>Article\<close> whose required \<^verbatim>\<open>Author\<close> is the zero \<^verbatim>\<open>Person\<close>, the error for
  the nested \<^verbatim>\<open>Name\<close> comes before the error for \<^verbatim>\<open>Author\<close>.
\<close>

theorem nested_errors_first_counterexample:
  "Form testLib (TPtr ArticleT) (VPtr (zero testLib ArticleT))
     (testRequest ''POST'' formContentType [])
   = Inr (VPtr (VStruct [VStruct [VString [], VString []]]),
          [NewError [''Name''] RequiredError ''Required'',
           NewError [''Author''] RequiredError ''Required''])"
  by (simp add: model_defs test_defs ArticleT_def)

text \<open>
  Claim C7 as amended.  What \<^verbatim>\<open>Form\<close>, \<^verbatim>\<open>MultipartForm\<close> and \<^verbatim>\<open>Json\<close> return
  ends with the errors of the validator pass, so that whatever the binder pass has
  contributed precedes them.  Within the validator pass, for a field the validator
  visits, the errors found by recursing into the field come first and the violations of
  the field's own rules after them.  For a target that is not a sequence the hook is
  invoked once, on the errors of the complete built-in pass, and what it returns is the
  result of the validator pass; for a sequence the hook of an element is invoked after
  the built-in pass over that element and before the next element is validated.
  \<^verbatim>\<open>validateStruct\<close> never invokes the hook: its result does not depend on it.
\<close>

theorem errors_in_discovery_order:
  "(Form L t obj req = Inr (obj', errs) \<and> structOf L t obj = Inr (twice, ts, v) \<longrightarrow>
      (\<exists>bindErrors validateErrs v'. obj' = target_of twice v' \<and>
          validate L ts v' req = Inr validateErrs \<and> errs = bindErrors @ validateErrs)) \<and>
   (MultipartForm L t obj req = Inr (obj', errs) \<and> structOf L t obj = Inr (twice, ts, v) \<longrightarrow>
      (\<exists>bindErrors validateErrs v' req'. obj' = target_of twice v' \<and>
          validate L ts v' req' = Inr validateErrs \<and> errs = bindErrors @ validateErrs)) \<and>
   (Json L t obj req = Inr (obj', errs) \<and> structOf L t obj = Inr (twice, ts, v) \<longrightarrow>
      (\<exists>bindErrors validateErrs.
          validate L t obj' req = Inr validateErrs \<and> errs = bindErrors @ validateErrs)) \<and>
   (validateField L errors (FDecl name ft anon True formTag bindingTag) fieldValue = Inr errors'
      \<and> formTag \<noteq> ''-'' \<longrightarrow>
      (\<exists>nested own. errors' = errors @ nested @ own \<and>
          matchRules L name (zero L ft) fieldValue (Split bindingTag CHR '';'') (errors @ nested)
            = Inr (errors @ nested @ own) \<and>
          (if Kind ft = KStruct \<or>
              (Kind ft = KPtr \<and> \<not> DeepEqual L (zero L ft) fieldValue \<and>
               (case ft of TPtr te \<Rightarrow> Kind te = KStruct | _ \<Rightarrow> False))
           then validateStruct L errors ft fieldValue = Inr (errors @ nested)
           else nested = []))) \<and>
   (validate L t obj req = Inr errs \<and> (\<forall>te. t \<noteq> TSlice te \<and> t \<noteq> TPtr (TSlice te)) \<longrightarrow>
      (\<exists>built. validateStruct L [] t obj = Inr built \<and>
          errs = (case ValidateBinder L t of
                    Some validator \<Rightarrow> validator obj req built
                  | None \<Rightarrow> built))) \<and>
   validate L (TSlice te) (VSlice (e # es)) req
     = (case validateStruct L [] te e of
          Inl p \<Rightarrow> Inl p
        | Inr built \<Rightarrow>
            validate_elems L te es req
              (case ValidateBinder L te of
                 Some validator \<Rightarrow> validator e req built
               | None \<Rightarrow> built)) \<and>
   validateStruct (L\<lparr>ValidateBinder := h\<rparr>) errors t obj = validateStruct L errors t obj"
proof (intro conjI impI)
  assume "Form L t obj req = Inr (obj', errs) \<and> structOf L t obj = Inr (twice, ts, v)"
  then show "\<exists>bindErrors validateErrs v'. obj' = target_of twice v' \<and>
          validate L ts v' req = Inr validateErrs \<and> errs = bindErrors @ validateErrs"
    using Form_errors by blast
next
  assume "MultipartForm L t obj req = Inr (obj', errs) \<and> structOf L t obj = Inr (twice, ts, v)"
  then show "\<exists>bindErrors validateErrs v' req'. obj' = target_of twice v' \<and>
          validate L ts v' req' = Inr validateErrs \<and> errs = bindErrors @ validateErrs"
    using MultipartForm_errors by blast
next
  assume "Json L t obj req = Inr (obj', errs) \<and> structOf L t obj = Inr (twice, ts, v)"
  then show "\<exists>bindErrors validateErrs.
          validate L t obj' req = Inr validateErrs \<and> errs = bindErrors @ validateErrs"
    using Json_errors by blast
next
  assume "validateField L errors (FDecl name ft anon True formTag bindingTag) fieldValue
            = Inr errors' \<and> formTag \<noteq> ''-''"
  then show "\<exists>nested own. errors' = errors @ nested @ own \<and>
          matchRules L name (zero L ft) fieldValue (Split bindingTag CHR '';'') (errors @ nested)
            = Inr (errors @ nested @ own) \<and>
          (if Kind ft = KStruct \<or>
              (Kind ft = KPtr \<and> \<not> DeepEqual L (zero L ft) fieldValue \<and>
               (case ft of TPtr te \<Rightarrow> Kind te = KStruct | _ \<Rightarrow> False))
           then validateStruct L errors ft fieldValue = Inr (errors @ nested)
           else nested = [])"
    using validateField_visited [of L errors name ft anon formTag bindingTag fieldValue errors']
    by blast
next
  assume "validate L t obj req = Inr errs \<and> (\<forall>te. t \<noteq> TSlice te \<and> t \<noteq> TPtr (TSlice te))"
  then show "\<exists>built. validateStruct L [] t obj = Inr built \<and>
          errs = (case ValidateBinder L t of
                    Some validator \<Rightarrow> validator obj req built
                  | None \<Rightarrow> built)"
    using validate_hook_last [of L t obj req errs] by blast
next
  show "validate L (TSlice te) (VSlice (e # es)) req
     = (case validateStruct L [] te e of
          Inl p \<Rightarrow> Inl p
        | Inr built \<Rightarrow>
            validate_elems L te es req
              (case ValidateBinder L te of
                 Some validator \<Rightarrow> validator e req built
               | None \<Rightarrow> built))"
    by (simp add: validate_def)
next
  show "validateStruct (L\<lparr>ValidateBinder := h\<rparr>) errors t obj = validateStruct L errors t obj"
    by (rule validateStruct_hook(1))
qed

theorem errors_in_discovery_order_witness:
  "validateField testLib [] (FDecl ''Author'' PersonT False True [] ''Required'')
     (VStruct [VString [], VString []])
   = Inr [NewError [''Name''] RequiredError ''Required'',
          NewError [''Author''] RequiredError ''Required'']
   \<and> (\<exists>nested own.
         [NewError [''Name''] RequiredError ''Required'',
          NewError [''Author''] RequiredError ''Required''] = [] @ nested @ own \<and>
         validateStruct testLib [] PersonT (VStruct [VString [], VString []])
           = Inr ([] @ nested) \<and>
         matchRules testLib ''Author'' (zero testLib PersonT) (VStruct [VString [], VString []])
           (Split ''Required'' CHR '';'') ([] @ nested) = Inr ([] @ nested @ own))
   \<and> validate testLib PostT (VStruct [VString [], VString []])
       (testRequest ''POST'' formContentType [])
     = Inr [NewError [''Title''] RequiredError ''Required'',
            \<lparr>FieldNames = [''Title''], Classification = CustomError ''LengthError'',
               Message = ''Life is too short''\<rparr>]
   \<and> (\<exists>built. validateStruct testLib [] PostT (VStruct [VString [], VString []]) = Inr built \<and>
         [NewError [''Title''] RequiredError ''Required'',
          \<lparr>FieldNames = [''Title''], Classification = CustomError ''LengthError'',
             Message = ''Life is too short''\<rparr>]
         = (case ValidateBinder testLib PostT of
              Some validator \<Rightarrow>
                validator (VStruct [VString [], VString []])
                  (testRequest ''POST'' formContentType []) built
            | None \<Rightarrow> built))"
proof -
  have f: "validateField testLib [] (FDecl ''Author'' PersonT False True [] ''Required'')
     (VStruct [VString [], VString []])
   = Inr [NewError [''Name''] RequiredError ''Required'',
          NewError [''Author''] RequiredError ''Required'']"
    by (simp add: model_defs test_defs)
  have k: "Kind PersonT = KStruct" by (simp add: PersonT_def)
  have v: "validate testLib PostT (VStruct [VString [], VString []])
       (testRequest ''POST'' formContentType [])
     = Inr [NewError [''Title''] RequiredError ''Required'',
            \<lparr>FieldNames = [''Title''], Classification = CustomError ''LengthError'',
               Message = ''Life is too short''\<rparr>]"
    by (simp add: model_defs test_defs)
  have ns: "\<forall>te. PostT \<noteq> TSlice te \<and> PostT \<noteq> TPtr (TSlice te)"
    by (simp add: PostT_def)
  note t1 = errors_in_discovery_order [of testLib _ _ _ _ _ _ _ _ "[]" "''Author''" PersonT
              False "[]" "''Required''" "VStruct [VString [], VString []]"
              "[NewError [''Name''] RequiredError ''Required'',
                NewError [''Author''] RequiredError ''Required'']",
              THEN conjunct2, THEN conjunct2, THEN conjunct2, THEN conjunct1, rule_format]
  note t2 = errors_in_discovery_order [of testLib PostT "VStruct [VString [], VString []]"
              "testRequest ''POST'' formContentType []" _ 
              "[NewError [''Title''] RequiredError ''Required'',
                \<lparr>FieldNames = [''Title''], Classification = CustomError ''LengthError'',
                   Message = ''Life is too short''\<rparr>]",
              THEN conjunct2, THEN conjunct2, THEN conjunct2, THEN conjunct2, THEN conjunct1,
              rule_format]
  have h: "validateField testLib [] (FDecl ''Author'' PersonT False True [] ''Required'')
              (VStruct [VString [], VString []])
            = Inr [NewError [''Name''] RequiredError ''Required'',
                   NewError [''Author''] RequiredError ''Required'']
            \<and> ([] :: string) \<noteq> ''-''"
    using f by simp
  from t1 [OF h] obtain nested own where
    a: "[NewError [''Name''] RequiredError ''Required'',
         NewError [''Author''] RequiredError ''Required''] = [] @ nested @ own" and
    b: "matchRules testLib ''Author'' (zero testLib PersonT) (VStruct [VString [], VString []])
          (Split ''Required'' CHR '';'') ([] @ nested) = Inr ([] @ nested @ own)" and
    c: "if Kind PersonT = KStruct \<or>
           (Kind PersonT = KPtr \<and>
            \<not> DeepEqual testLib (zero testLib PersonT) (VStruct [VString [], VString []]) \<and>
            (case PersonT of TPtr te \<Rightarrow> Kind te = KStruct | _ \<Rightarrow> False))
        then validateStruct testLib [] PersonT (VStruct [VString [], VString []])
               = Inr ([] @ nested)
        else nested = []"
    by blast
  from c k have c': "validateStruct testLib [] PersonT (VStruct [VString [], VString []])
               = Inr ([] @ nested)"
    by (simp only: if_True simp_thms)
  from a c' b have p1: "\<exists>nested own.
         [NewError [''Name''] RequiredError ''Required'',
          NewError [''Author''] RequiredError ''Required''] = [] @ nested @ own \<and>
         validateStruct testLib [] PersonT (VStruct [VString [], VString []])
           = Inr ([] @ nested) \<and>
         matchRules testLib ''Author'' (zero testLib PersonT) (VStruct [VString [], VString []])
           (Split ''Required'' CHR '';'') ([] @ nested) = Inr ([] @ nested @ own)"
    by blast
  from t2 v ns have p2: "\<exists>built.
         validateStruct testLib [] PostT (VStruct [VString [], VString []]) = Inr built \<and>
         [NewError [''Title''] RequiredError ''Required'',
          \<lparr>FieldNames = [''Title''], Classification = CustomError ''LengthError'',
             Message = ''Life is too short''\<rparr>]
         = (case ValidateBinder testLib PostT of
              Some validator \<Rightarrow>
                validator (VStruct [VString [], VString []])
                  (testRequest ''POST'' formContentType []) built
            | None \<Rightarrow> built)"
    by blast
  show ?thesis by (intro conjI f p1 v p2)
qed

end
